theory Spec2Isabelle
  imports Main
begin

section \<open>The libcurl fetcher of libpkg (\<^verbatim>\<open>libpkg/fetch_libcurl.c\<close>)\<close>

text \<open>
  The file drives one easy handle through a libcurl multi handle. libcurl, the DNS
  resolver and the event sink of pkg are not part of the file, so they appear here as
  data the functions are given: a script of what the multi handle answers, the SRV
  records in memory, and a trace of every effect the functions have on the outside.
\<close>

subsection \<open>Data\<close>

datatype mirror_t = SRV | HTTP | NOMIRROR

datatype epkg = EPKG_OK | EPKG_FATAL | EPKG_UPTODATE

text \<open>
  \<^verbatim>\<open>struct dns_srvinfo\<close> is a linked list; a pointer is \<open>None\<close> (NULL) or the address
  of a node. Every address holds a node: only NULL cannot be dereferenced.
\<close>

record dns_srvinfo =
  srv_host :: string
  srv_port :: int
  srv_next :: "nat option"

text \<open>A \<^verbatim>\<open>CURLU\<close> handle, reduced to the parts the file reads or writes.\<close>

record curlu =
  cu_host :: string
  cu_port :: string
  cu_path :: string

record curl_repodata =
  cr_url :: "curlu option"

record pkg_repo =
  repo_name :: string
  repo_url :: string
  mirror_type :: mirror_t
  srv :: "nat option"
  fetch_priv :: "curl_repodata option"

record fetch_item =
  fi_url :: string
  fi_size :: nat
  fi_mtime :: int

text \<open>
  \<^verbatim>\<open>struct curl_userdata\<close>. \<open>d_fh\<close> tells whether the stream \<^verbatim>\<open>data.fh\<close> is open;
  the descriptor and the easy handle carry no state of their own here.
\<close>

record curl_userdata =
  d_fh :: bool
  d_size :: nat
  d_totalsize :: nat
  d_started :: bool
  d_url :: string
  d_response :: int

text \<open>
  Everything the file does to the outside, in the order it happens: the events of pkg,
  the operations on the destination stream, the options that name the target of a
  request, and the calls that drive the multi handle. \<open>Header_response c\<close> is the
  response code the header callback has just read from the easy handle.
\<close>

datatype effect =
    Fetch_begin string
  | Progress_start
  | Progress_tick int int
  | Emit_error string
  | Srv_lookup string
  | Fdopen
  | Fclose
  | Fwrite nat
  | Setopt_url string
  | Setopt_curlu "curlu option"
  | Setopt_timevalue int
  | Multi_add_handle
  | Multi_perform
  | Header_response int

text \<open>
  The callbacks libcurl fires while \<^verbatim>\<open>curl_multi_perform\<close> runs: a header line
  (with the response code the handle reports at that moment), a progress report
  (\<^verbatim>\<open>dltotal\<close>, \<^verbatim>\<open>dlnow\<close>), a chunk of the body (with what \<^verbatim>\<open>fwrite\<close> returns).
\<close>

datatype callback =
    Header_cb int
  | Progress_cb int int
  | Write_cb nat

text \<open>
  One call of \<^verbatim>\<open>curl_multi_perform\<close>: the callbacks it fires, the value it stores in
  \<^verbatim>\<open>still_running\<close>, its return code, and the return code of the
  \<^verbatim>\<open>curl_multi_poll\<close> that follows when transfers are still running.
\<close>

record perform_step =
  ps_callbacks :: "callback list"
  ps_running :: int
  ps_mc :: int
  ps_poll_mc :: int

text \<open>
  A message of \<^verbatim>\<open>curl_multi_info_read\<close>: \<^verbatim>\<open>CURLMSG_DONE\<close> with the response code
  its easy handle reports, or any other message.
\<close>

datatype curlmsg = CURLMSG_DONE int | CURLMSG_OTHER

text \<open>
  The transport as one call of \<^verbatim>\<open>curl_fetch\<close> sees it: whether
  \<^verbatim>\<open>fdopen(dup(dest), "w")\<close> succeeds, the successive answers of
  \<^verbatim>\<open>curl_multi_perform\<close> and of \<^verbatim>\<open>curl_multi_info_read\<close>, and the file time of
  \<^verbatim>\<open>CURLINFO_FILETIME_T\<close>. Past the end of the scripts the multi handle is idle:
  nothing is running, and \<^verbatim>\<open>curl_multi_info_read\<close> returns NULL.
\<close>

record transport =
  fdopen_ok :: bool
  t_performs :: "perform_step list"
  t_msgs :: "curlmsg list"
  t_filetime :: int

text \<open>
  What the file takes from the rest of the program: the URL parser of libcurl
  (\<open>None\<close> for a URL it rejects), whether \<^verbatim>\<open>curl_url_set\<close> accepts a host name and
  a port (a part it rejects leaves the handle as it was), the resolver
  \<^verbatim>\<open>dns_getsrvinfo\<close> (the head of the list, NULL when there is no record), the memory
  the SRV nodes live in, and the configured \<^verbatim>\<open>FETCH_RETRY\<close>.
\<close>

record collaborators =
  url_parse :: "string \<Rightarrow> curlu option"
  url_host_ok :: "string \<Rightarrow> bool"
  url_port_ok :: "string \<Rightarrow> bool"
  dns_getsrvinfo :: "string \<Rightarrow> nat option"
  srv_mem :: "nat \<Rightarrow> dns_srvinfo"
  fetch_retry :: int

text \<open>The ways the C code can leave the defined behaviour of the language.\<close>

datatype crash = Null_deref | Signed_overflow

text \<open>The locals of \<^verbatim>\<open>curl_fetch\<close>, with \<^verbatim>\<open>*cr\<close>, the script left and the trace.\<close>

record fetch_state =
  data :: curl_userdata
  still_running :: int
  retry :: int
  retcode :: epkg
  srv_current :: "nat option"
  cr :: "curl_repodata option"
  performs :: "perform_step list"
  trace :: "effect list"

record fetch_result =
  r_code :: "crash + epkg"
  r_item :: fetch_item
  r_repo :: pkg_repo
  r_trace :: "effect list"

subsection \<open>The callbacks\<close>

definition emit :: "effect list \<Rightarrow> fetch_state \<Rightarrow> fetch_state" where
  "emit es st = st\<lparr>trace := trace st @ es\<rparr>"

text \<open>
  \<^verbatim>\<open>fwrite\<close> returns \<open>written\<close>; the stream it is given is read off the trace (see
  \<open>stream_ok\<close>).
\<close>

definition curl_write_cb :: "nat \<Rightarrow> fetch_state \<Rightarrow> fetch_state" where
  "curl_write_cb written st =
     emit [Fwrite written]
       (st\<lparr>data := (data st)\<lparr>d_size := (d_size (data st) + written) mod 2 ^ 64\<rparr>\<rparr>)"

definition curl_parseheader_cb :: "int \<Rightarrow> fetch_state \<Rightarrow> fetch_state" where
  "curl_parseheader_cb code st =
     (let st1 = emit [Header_response code] (st\<lparr>data := (data st)\<lparr>d_response := code\<rparr>\<rparr>)
      in if d_response (data st1) = 200 \<and> \<not> d_started (data st1)
         then (emit [Fetch_begin (d_url (data st1)), Progress_start] st1)
                \<lparr>data := (data st1)\<lparr>d_started := True\<rparr>\<rparr>
         else st1)"

definition curl_progress_cb :: "int \<Rightarrow> int \<Rightarrow> fetch_state \<Rightarrow> fetch_state" where
  "curl_progress_cb dltotal dlnow st =
     (if d_response (data st) \<noteq> 200 then st
      else emit [Progress_tick dlnow dltotal] st)"

fun run_callback :: "callback \<Rightarrow> fetch_state \<Rightarrow> fetch_state" where
  "run_callback (Header_cb code) st = curl_parseheader_cb code st"
| "run_callback (Progress_cb dltotal dlnow) st = curl_progress_cb dltotal dlnow st"
| "run_callback (Write_cb written) st = curl_write_cb written st"

fun run_callbacks :: "callback list \<Rightarrow> fetch_state \<Rightarrow> fetch_state" where
  "run_callbacks [] st = st"
| "run_callbacks (c # cs) st = run_callbacks cs (run_callback c st)"

subsection \<open>\<^verbatim>\<open>curl_open\<close> and \<^verbatim>\<open>curl_cleanup\<close>\<close>

text \<open>An upper-case ASCII letter becomes lower case when bit 5 is set.\<close>

definition lower_char :: "char \<Rightarrow> char" where
  "lower_char c =
     (if (65::nat) \<le> of_char c \<and> of_char c \<le> (90::nat)
      then (case c of Char b0 b1 b2 b3 b4 b5 b6 b7 \<Rightarrow> Char b0 b1 b2 b3 b4 True b6 b7)
      else c)"

text \<open>\<^verbatim>\<open>strncasecmp(repo->url, "pkg+", 4) == 0\<close> and the offset it selects.\<close>

definition urloff :: "string \<Rightarrow> nat" where
  "urloff u = (if map lower_char (take 4 u) = ''pkg+'' then 4 else 0)"

definition curl_url_empty :: curlu where
  "curl_url_empty = \<lparr>cu_host = [], cu_port = [], cu_path = []\<rparr>"

definition curl_open :: "collaborators \<Rightarrow> pkg_repo \<Rightarrow> epkg \<times> pkg_repo \<times> effect list" where
  "curl_open E repo =
     (if fetch_priv repo \<noteq> None then (EPKG_OK, repo, [])
      else
        let repo1 = repo\<lparr>fetch_priv := Some \<lparr>cr_url = None\<rparr>\<rparr>
        in if mirror_type repo1 = SRV \<and> srv repo1 = None then
             (case url_parse E (drop (urloff (repo_url repo1)) (repo_url repo1)) of
                None \<Rightarrow>
                  (EPKG_FATAL,
                   repo1\<lparr>fetch_priv := Some \<lparr>cr_url = Some curl_url_empty\<rparr>\<rparr>,
                   [Emit_error (''impossible to parse url: '' @ [CHR 0x27] @ repo_url repo1
                                @ [CHR 0x27])])
              | Some u \<Rightarrow>
                  let repo2 = repo1\<lparr>fetch_priv := Some \<lparr>cr_url = Some u\<rparr>\<rparr>;
                      zone = ''_http._tcp.'' @ cu_host u
                  in (case dns_getsrvinfo E zone of
                        None \<Rightarrow>
                          (EPKG_OK, repo2\<lparr>mirror_type := NOMIRROR\<rparr>,
                           [Srv_lookup zone,
                            Emit_error (''No SRV record found for the repo '' @ [CHR 0x27]
                                        @ repo_name repo2 @ [CHR 0x27, CHR 0x0A])])
                      | Some p \<Rightarrow> (EPKG_OK, repo2\<lparr>srv := Some p\<rparr>, [Srv_lookup zone])))
           else (EPKG_OK, repo1, []))"

definition curl_cleanup :: "pkg_repo \<Rightarrow> pkg_repo" where
  "curl_cleanup repo = (if fetch_priv repo = None then repo else repo\<lparr>fetch_priv := None\<rparr>)"

subsection \<open>\<^verbatim>\<open>curl_fetch\<close>\<close>

text \<open>\<^verbatim>\<open>xasprintf(&portstr, "%d", srv_current->port)\<close>.\<close>

fun dec_nat :: "nat \<Rightarrow> string" where
  "dec_nat n =
     (if n < 10 then [''0123456789'' ! n]
      else dec_nat (n div 10) @ [''0123456789'' ! (n mod 10)])"

declare dec_nat.simps [simp del]

definition dec_int :: "int \<Rightarrow> string" where
  "dec_int i = (if i < 0 then CHR ''-'' # dec_nat (nat (- i)) else dec_nat (nat i))"

text \<open>
  Lines 165 to 172, before the label: with the SRV strategy the path of the item's URL
  is stored in \<^verbatim>\<open>cr->url\<close>. \<^verbatim>\<open>curl_url_get\<close> gives a path for every handle, the
  path \<^verbatim>\<open>/\<close> when the handle has none (as after a URL the parser rejects), so
  \<^verbatim>\<open>urlpath\<close> is never NULL. \<^verbatim>\<open>cr\<close> is \<^verbatim>\<open>repo->fetch_priv\<close> and is dereferenced
  without a check; \<^verbatim>\<open>curl_url_set\<close> on a NULL handle only returns an error.
\<close>

definition urlpath :: "collaborators \<Rightarrow> fetch_item \<Rightarrow> string" where
  "urlpath E fi = (case url_parse E (fi_url fi) of None \<Rightarrow> ''/'' | Some cu \<Rightarrow> cu_path cu)"

definition set_path :: "collaborators \<Rightarrow> pkg_repo \<Rightarrow> fetch_item \<Rightarrow> fetch_state
    \<Rightarrow> (crash \<times> fetch_state) + fetch_state" where
  "set_path E repo fi st =
     (if mirror_type repo = SRV then
        (case cr st of
           None \<Rightarrow> Inl (Null_deref, st)
         | Some c \<Rightarrow>
             Inr (st\<lparr>cr := Some (c\<lparr>cr_url :=
                    map_option (\<lambda>u. u\<lparr>cu_path := urlpath E fi\<rparr>) (cr_url c)\<rparr>)\<rparr>))
      else Inr st)"

text \<open>
  Lines 174 to 212, from the label \<^verbatim>\<open>retry\<close> to \<^verbatim>\<open>curl_multi_add_handle\<close>: the target
  of the request. With the SRV strategy the cursor starts at \<^verbatim>\<open>repo->srv\<close> and
  otherwise moves to \<^verbatim>\<open>srv_current->next\<close>; the node it then points to is read at once.
  The host and the port of the node are stored in \<^verbatim>\<open>cr->url\<close> when libcurl accepts
  them; the return codes of \<^verbatim>\<open>curl_url_set\<close> are not looked at.
  With the HTTP strategy no target is set. Of the options that follow, the trace keeps
  the time condition; the others (the callbacks, the redirects, the timeout, the debug
  level and the two environment switches for TLS) change nothing the file itself reads.
\<close>

definition set_host :: "collaborators \<Rightarrow> string \<Rightarrow> curlu \<Rightarrow> curlu" where
  "set_host E h u = (if url_host_ok E h then u\<lparr>cu_host := h\<rparr> else u)"

definition set_port :: "collaborators \<Rightarrow> string \<Rightarrow> curlu \<Rightarrow> curlu" where
  "set_port E p u = (if url_port_ok E p then u\<lparr>cu_port := p\<rparr> else u)"

definition select_target :: "collaborators \<Rightarrow> pkg_repo \<Rightarrow> fetch_item \<Rightarrow> fetch_state
    \<Rightarrow> (crash \<times> fetch_state) + fetch_state" where
  "select_target E repo fi st =
     (case mirror_type repo of
        SRV \<Rightarrow>
          (let st1 = st\<lparr>srv_current :=
                      (case srv_current st of
                         None \<Rightarrow> srv repo
                       | Some a \<Rightarrow> srv_next (srv_mem E a))\<rparr>
           in case srv_current st1 of
                None \<Rightarrow> Inl (Null_deref, st1)
              | Some a \<Rightarrow>
                  (case cr st1 of
                     None \<Rightarrow> Inl (Null_deref, st1)
                   | Some c \<Rightarrow>
                       (let c1 = c\<lparr>cr_url :=
                                  map_option
                                    (\<lambda>u. set_port E (dec_int (srv_port (srv_mem E a)))
                                           (set_host E (srv_host (srv_mem E a)) u))
                                    (cr_url c)\<rparr>
                        in Inr (emit [Setopt_curlu (cr_url c1)] (st1\<lparr>cr := Some c1\<rparr>)))))
      | HTTP \<Rightarrow> Inr st
      | NOMIRROR \<Rightarrow> Inr (emit [Setopt_url (fi_url fi)] st))"

definition add_handle :: "fetch_item \<Rightarrow> fetch_state \<Rightarrow> (crash \<times> fetch_state) + fetch_state" where
  "add_handle fi st =
     (let st1 = emit [Setopt_timevalue (fi_mtime fi)] st
      in case cr st1 of
           None \<Rightarrow> Inl (Null_deref, st1)
         | Some c \<Rightarrow> Inr (emit [Multi_add_handle] st1))"

text \<open>
  Lines 214 to 223, the loop \<^verbatim>\<open>while(still_running)\<close>. \<^verbatim>\<open>still_running\<close> is set to 1
  where it is declared and nowhere else, so a later pass starts with the value the
  previous pass left.
\<close>

fun multi_loop :: "perform_step list \<Rightarrow> fetch_state \<Rightarrow> fetch_state" where
  "multi_loop [] st =
     (if still_running st = 0 then st\<lparr>performs := []\<rparr>
      else (emit [Multi_perform] st)\<lparr>still_running := 0, performs := []\<rparr>)"
| "multi_loop (p # ps) st =
     (if still_running st = 0 then st\<lparr>performs := p # ps\<rparr>
      else
        let st1 = run_callbacks (ps_callbacks p) (emit [Multi_perform] st);
            st2 = st1\<lparr>still_running := ps_running p\<rparr>;
            mc = (if still_running st2 \<noteq> 0 then ps_poll_mc p else ps_mc p)
        in if mc \<noteq> 0 then st2\<lparr>performs := ps\<rparr> else multi_loop ps st2)"

text \<open>One pass from the label \<^verbatim>\<open>retry\<close> to the end of the loop \<^verbatim>\<open>while(still_running)\<close>.\<close>

definition attempt :: "collaborators \<Rightarrow> pkg_repo \<Rightarrow> fetch_item \<Rightarrow> fetch_state
    \<Rightarrow> (crash \<times> fetch_state) + fetch_state" where
  "attempt E repo fi st =
     (case select_target E repo fi st of
        Inl x \<Rightarrow> Inl x
      | Inr st1 \<Rightarrow>
          (case add_handle fi st1 of
             Inl x \<Rightarrow> Inl x
           | Inr st2 \<Rightarrow> Inr (multi_loop (performs st2) st2)))"

text \<open>
  Line 225. The stream is opened once, at line 155, and closed here at every message,
  so from the second message on \<^verbatim>\<open>fclose\<close> is given a closed stream, and a write
  callback of a later pass writes to one. C leaves both undefined. The model does not
  choose an outcome for them: it records every \<open>Fclose\<close> and \<open>Fwrite\<close> in the trace,
  and \<open>stream_ok\<close> below tells of a trace whether each of them found the stream open.
  Where a trace is not \<open>stream_ok\<close> the C code has left defined behaviour at that
  point, and the model goes on as the code does when the operation on the closed
  stream has no effect; a return that is meant to be relied on is stated together with
  \<open>stream_ok\<close> of its trace.
\<close>

definition fclose_fh :: "fetch_state \<Rightarrow> fetch_state" where
  "fclose_fh st = emit [Fclose] (st\<lparr>data := (data st)\<lparr>d_fh := False\<rparr>\<rparr>)"

text \<open>
  Lines 233 to 238: \<^verbatim>\<open>--retry\<close> on an \<^verbatim>\<open>int64_t\<close>, then the test that reports the
  failure and sets the return code.
\<close>

definition count_failure :: "int \<Rightarrow> fetch_state \<Rightarrow> (crash \<times> fetch_state) + fetch_state" where
  "count_failure rc st =
     (if retry st = - (2 ^ 63) then Inl (Signed_overflow, st)
      else
        let st1 = st\<lparr>retry := retry st - 1\<rparr>
        in if retry st1 \<le> 0 \<or> rc = 404
           then Inr ((emit [Emit_error ''An error occured while fetching package''] st1)
                       \<lparr>retcode := EPKG_FATAL\<rparr>)
           else Inr st1)"

text \<open>
  Lines 224 to 244, the loop over \<^verbatim>\<open>curl_multi_info_read\<close>. \<^verbatim>\<open>goto retry\<close> runs
  the next pass and comes back to this loop, which reads the next message.
\<close>

fun msg_loop :: "collaborators \<Rightarrow> pkg_repo \<Rightarrow> fetch_item \<Rightarrow> curlmsg list \<Rightarrow> fetch_state
    \<Rightarrow> (crash \<times> fetch_state) + fetch_state" where
  "msg_loop E repo fi [] st = Inr st"
| "msg_loop E repo fi (CURLMSG_DONE rc # ms) st =
     (if rc = 304 then msg_loop E repo fi ms ((fclose_fh st)\<lparr>retcode := EPKG_UPTODATE\<rparr>)
      else if rc \<noteq> 200 then
        (case count_failure rc (fclose_fh st) of
           Inl x \<Rightarrow> Inl x
         | Inr st1 \<Rightarrow>
             (case attempt E repo fi st1 of
                Inl x \<Rightarrow> Inl x
              | Inr st2 \<Rightarrow> msg_loop E repo fi ms st2))
      else msg_loop E repo fi ms (fclose_fh st))"
| "msg_loop E repo fi (CURLMSG_OTHER # ms) st =
     msg_loop E repo fi ms
       (emit [Emit_error ''An error occured while fetching package''] (fclose_fh st))"

definition fetch_init :: "collaborators \<Rightarrow> pkg_repo \<Rightarrow> fetch_item \<Rightarrow> transport \<Rightarrow> fetch_state" where
  "fetch_init E repo fi T =
     \<lparr>data = \<lparr>d_fh = True, d_size = 0, d_totalsize = fi_size fi, d_started = False,
              d_url = fi_url fi, d_response = 0\<rparr>,
      still_running = 1,
      retry = fetch_retry E,
      retcode = EPKG_OK,
      srv_current = None,
      cr = fetch_priv repo,
      performs = t_performs T,
      trace = [Fdopen]\<rparr>"

text \<open>A crash ends the process: the item is as it was, \<^verbatim>\<open>*cr\<close> as the crash found it.\<close>

definition crashed :: "pkg_repo \<Rightarrow> fetch_item \<Rightarrow> crash \<times> fetch_state \<Rightarrow> fetch_result" where
  "crashed repo fi x =
     \<lparr>r_code = Inl (fst x), r_item = fi, r_repo = repo\<lparr>fetch_priv := cr (snd x)\<rparr>,
      r_trace = trace (snd x)\<rparr>"

definition curl_fetch :: "collaborators \<Rightarrow> pkg_repo \<Rightarrow> fetch_item \<Rightarrow> transport \<Rightarrow> fetch_result" where
  "curl_fetch E repo fi T =
     (if \<not> fdopen_ok T
      then \<lparr>r_code = Inr EPKG_FATAL, r_item = fi, r_repo = repo, r_trace = []\<rparr>
      else
        (case set_path E repo fi (fetch_init E repo fi T) of
           Inl x \<Rightarrow> crashed repo fi x
         | Inr st0 \<Rightarrow>
             (case attempt E repo fi st0 of
                Inl x \<Rightarrow> crashed repo fi x
              | Inr st1 \<Rightarrow>
                  (case msg_loop E repo fi (t_msgs T) st1 of
                     Inl x \<Rightarrow> crashed repo fi x
                   | Inr st2 \<Rightarrow>
                       \<lparr>r_code = Inr (retcode st2),
                        r_item = fi\<lparr>fi_mtime := t_filetime T\<rparr>,
                        r_repo = repo\<lparr>fetch_priv := cr st2\<rparr>,
                        r_trace = trace st2\<rparr>))))"

subsection \<open>A session\<close>

text \<open>
  What a caller does with one repository: it opens it, fetches items and cleans up, in
  any order, each time with the collaborators of that moment. The trace of the session
  is the trace of its calls, one after the other; after a crash nothing more happens.
\<close>

datatype call = Open collaborators | Fetch collaborators fetch_item transport | Cleanup

record session =
  s_repo :: pkg_repo
  s_trace :: "effect list"
  s_alive :: bool

fun run_call :: "call \<Rightarrow> session \<Rightarrow> session" where
  "run_call (Open E) s =
     s\<lparr>s_repo := fst (snd (curl_open E (s_repo s))),
       s_trace := s_trace s @ snd (snd (curl_open E (s_repo s)))\<rparr>"
| "run_call (Fetch E fi T) s =
     s\<lparr>s_repo := r_repo (curl_fetch E (s_repo s) fi T),
       s_trace := s_trace s @ r_trace (curl_fetch E (s_repo s) fi T),
       s_alive := (case r_code (curl_fetch E (s_repo s) fi T) of Inl c \<Rightarrow> False | Inr c \<Rightarrow> True)\<rparr>"
| "run_call Cleanup s = s\<lparr>s_repo := curl_cleanup (s_repo s)\<rparr>"

fun run_calls :: "call list \<Rightarrow> session \<Rightarrow> session" where
  "run_calls [] s = s"
| "run_calls (c # cs) s = (if s_alive s then run_calls cs (run_call c s) else s)"

subsection \<open>Reading a trace\<close>

fun is_begin :: "effect \<Rightarrow> bool" where
  "is_begin (Fetch_begin u) = True"
| "is_begin e = False"

fun is_tick :: "effect \<Rightarrow> bool" where
  "is_tick (Progress_tick a b) = True"
| "is_tick e = False"

fun is_error :: "effect \<Rightarrow> bool" where
  "is_error (Emit_error m) = True"
| "is_error e = False"

text \<open>Every fetch-begin in the trace has a header callback that read 200 before it.\<close>

definition after_200 :: "effect list \<Rightarrow> bool" where
  "after_200 tr = (\<forall>i < length tr. is_begin (tr ! i) \<longrightarrow> Header_response 200 \<in> set (take i tr))"

fun is_fdopen :: "effect \<Rightarrow> bool" where
  "is_fdopen Fdopen = True"
| "is_fdopen e = False"

fun is_lookup :: "effect \<Rightarrow> bool" where
  "is_lookup (Srv_lookup z) = True"
| "is_lookup e = False"

fun is_target :: "effect \<Rightarrow> bool" where
  "is_target (Setopt_url u) = True"
| "is_target (Setopt_curlu u) = True"
| "is_target e = False"

text \<open>
  A response code that is neither a success (200), nor "not modified" (304), nor "not
  found" (404); a transport error leaves the code at 0.
\<close>

definition transient :: "int \<Rightarrow> bool" where
  "transient rc \<longleftrightarrow> rc \<noteq> 200 \<and> rc \<noteq> 304 \<and> rc \<noteq> 404"

definition errors :: "effect list \<Rightarrow> nat" where
  "errors tr = length (filter is_error tr)"

text \<open>
  The destination stream along a trace: \<open>stream_scan b tr\<close> starts with the stream open
  (\<open>b\<close>) or not, follows every \<open>Fdopen\<close>, \<open>Fclose\<close> and \<open>Fwrite\<close> of \<open>tr\<close>, and is
  \<open>None\<close> as soon as a stream that is not open is closed or written to; otherwise it
  tells whether the stream is open in the end. A call starts with no stream.
\<close>

fun stream_scan :: "bool \<Rightarrow> effect list \<Rightarrow> bool option" where
  "stream_scan b [] = Some b"
| "stream_scan b (Fdopen # es) = stream_scan True es"
| "stream_scan b (Fclose # es) = (if b then stream_scan False es else None)"
| "stream_scan b (Fwrite n # es) = (if b then stream_scan b es else None)"
| "stream_scan b (e # es) = stream_scan b es"

definition stream_ok :: "effect list \<Rightarrow> bool" where
  "stream_ok tr \<longleftrightarrow> stream_scan False tr \<noteq> None"

subsection \<open>Properties kept by every step\<close>

text \<open>
  The effects a pass can add to the trace outside the callbacks, for a given repository
  and item.
\<close>

definition pass_effect :: "pkg_repo \<Rightarrow> fetch_item \<Rightarrow> effect \<Rightarrow> bool" where
  "pass_effect repo fi e =
     (case e of
        Multi_perform \<Rightarrow> True
      | Fclose \<Rightarrow> True
      | Multi_add_handle \<Rightarrow> True
      | Setopt_timevalue t \<Rightarrow> t = fi_mtime fi
      | Emit_error m \<Rightarrow> m = ''An error occured while fetching package''
      | Setopt_url u \<Rightarrow> mirror_type repo = NOMIRROR \<and> u = fi_url fi
      | Setopt_curlu u \<Rightarrow> mirror_type repo = SRV
      | _ \<Rightarrow> False)"

text \<open>Every callback the script can still fire is in \<open>C\<close>.\<close>

definition scripted :: "callback set \<Rightarrow> fetch_state \<Rightarrow> bool" where
  "scripted C st = (\<forall>p \<in> set (performs st). set (ps_callbacks p) \<subseteq> C)"

text \<open>The state a step ends in, whether it crashes or not.\<close>

definition res_state :: "(crash \<times> fetch_state) + fetch_state \<Rightarrow> fetch_state" where
  "res_state r = (case r of Inl x \<Rightarrow> snd x | Inr s \<Rightarrow> s)"

text \<open>
  Three properties of the userdata and the trace that every step keeps: the fetch-begin
  is counted by \<^verbatim>\<open>started\<close>; as long as no header callback reads 200 nothing is
  begun and nothing ticks; with the strategy \<open>NOMIRROR\<close> the only target is the URL of
  the item.
\<close>

definition begin_inv :: "curl_userdata \<Rightarrow> effect list \<Rightarrow> bool" where
  "begin_inv d tr \<longleftrightarrow>
     length (filter is_begin tr) = (if d_started d then 1 else 0)
     \<and> (Header_response 200 \<in> set tr \<longrightarrow> d_started d)
     \<and> after_200 tr"

definition quiet_inv :: "curl_userdata \<Rightarrow> effect list \<Rightarrow> bool" where
  "quiet_inv d tr \<longleftrightarrow> d_response d \<noteq> 200 \<and> (\<forall>e \<in> set tr. \<not> is_begin e \<and> \<not> is_tick e)"

definition direct_inv :: "fetch_item \<Rightarrow> curl_userdata \<Rightarrow> effect list \<Rightarrow> bool" where
  "direct_inv fi d tr \<longleftrightarrow>
     (\<forall>e \<in> set tr. \<not> is_lookup e \<and> (is_target e \<longrightarrow> e = Setopt_url (fi_url fi)))"

subsection \<open>Example inputs\<close>

text \<open>
  A parser that accepts every non-empty URL, three SRV records in a list that ends with
  NULL, a repository that fetches directly, one that uses SRV records and is not open
  yet, one that is open on the last of the three records alone, and a transport that
  answers from a script.
\<close>

definition example_parse :: "string \<Rightarrow> curlu option" where
  "example_parse u =
     (if u = [] then None
      else Some \<lparr>cu_host = ''mirror'', cu_port = [], cu_path = ''/pkg.txz''\<rparr>)"

definition three_mirrors :: "nat \<Rightarrow> dns_srvinfo" where
  "three_mirrors a =
     (if a = 1 then \<lparr>srv_host = ''m1'', srv_port = 80, srv_next = Some 2\<rparr>
      else if a = 2 then \<lparr>srv_host = ''m2'', srv_port = 80, srv_next = Some 3\<rparr>
      else \<lparr>srv_host = ''m3'', srv_port = 8080, srv_next = None\<rparr>)"

definition collab :: "int \<Rightarrow> collaborators" where
  "collab N = \<lparr>url_parse = example_parse, url_host_ok = (\<lambda>h. h \<noteq> []),
              url_port_ok = (\<lambda>p. p \<noteq> ''0''), dns_getsrvinfo = (\<lambda>zone. None),
              srv_mem = three_mirrors, fetch_retry = N\<rparr>"

definition collab_srv :: "int \<Rightarrow> collaborators" where
  "collab_srv N = \<lparr>url_parse = example_parse, url_host_ok = (\<lambda>h. h \<noteq> []),
              url_port_ok = (\<lambda>p. p \<noteq> ''0''), dns_getsrvinfo = (\<lambda>zone. Some 1),
              srv_mem = three_mirrors, fetch_retry = N\<rparr>"

definition direct_repo :: pkg_repo where
  "direct_repo = \<lparr>repo_name = ''repo'', repo_url = ''http://mirror/'', mirror_type = NOMIRROR,
                  srv = None, fetch_priv = Some \<lparr>cr_url = None\<rparr>\<rparr>"

definition srv_repo :: pkg_repo where
  "srv_repo = \<lparr>repo_name = ''repo'', repo_url = ''pkg+http://mirror/'', mirror_type = SRV,
               srv = None, fetch_priv = None\<rparr>"

definition one_record_repo :: pkg_repo where
  "one_record_repo =
     \<lparr>repo_name = ''repo'', repo_url = ''pkg+http://mirror/'', mirror_type = SRV,
      srv = Some 3,
      fetch_priv = Some \<lparr>cr_url = Some \<lparr>cu_host = ''mirror'', cu_port = [],
                                         cu_path = ''/''\<rparr>\<rparr>\<rparr>"

definition item0 :: fetch_item where
  "item0 = \<lparr>fi_url = ''http://mirror/pkg.txz'', fi_size = 0, fi_mtime = 0\<rparr>"

definition answer :: "int \<Rightarrow> perform_step" where
  "answer c = \<lparr>ps_callbacks = [Header_cb c, Header_cb c, Progress_cb 100 40, Write_cb 40],
              ps_running = 0, ps_mc = 0, ps_poll_mc = 0\<rparr>"

definition stub :: "perform_step list \<Rightarrow> curlmsg list \<Rightarrow> int \<Rightarrow> transport" where
  "stub ps ms ft = \<lparr>fdopen_ok = True, t_performs = ps, t_msgs = ms, t_filetime = ft\<rparr>"

lemmas run_simps = curl_fetch_def curl_open_def curl_cleanup_def urloff_def lower_char_def
  set_path_def urlpath_def set_host_def set_port_def fetch_init_def attempt_def
  select_target_def add_handle_def emit_def
  curl_parseheader_cb_def curl_progress_cb_def curl_write_cb_def fclose_fh_def
  count_failure_def crashed_def dec_int_def dec_nat.simps

lemmas example_simps = example_parse_def three_mirrors_def collab_def collab_srv_def
  direct_repo_def srv_repo_def one_record_repo_def item0_def answer_def stub_def

section \<open>Properties\<close>

subsection \<open>Frames and invariants\<close>

lemma emit_fields [simp]:
  "trace (emit es st) = trace st @ es"
  "data (emit es st) = data st"
  "retry (emit es st) = retry st"
  "retcode (emit es st) = retcode st"
  "cr (emit es st) = cr st"
  "performs (emit es st) = performs st"
  "still_running (emit es st) = still_running st"
  "srv_current (emit es st) = srv_current st"
  by (simp_all add: emit_def)

lemma run_callbacks_inv:
  assumes cb: "\<And>st c. c \<in> C \<Longrightarrow> P (data st) (trace st)
                 \<Longrightarrow> P (data (run_callback c st)) (trace (run_callback c st))"
  shows "set cs \<subseteq> C \<Longrightarrow> P (data st) (trace st)
         \<Longrightarrow> P (data (run_callbacks cs st)) (trace (run_callbacks cs st))"
  by (induction cs arbitrary: st) (auto intro: cb)

lemma run_callback_frame [simp]:
  "retry (run_callback c st) = retry st"
  "retcode (run_callback c st) = retcode st"
  "cr (run_callback c st) = cr st"
  "performs (run_callback c st) = performs st"
  "still_running (run_callback c st) = still_running st"
  "srv_current (run_callback c st) = srv_current st"
  by (cases c; simp add: curl_parseheader_cb_def curl_progress_cb_def curl_write_cb_def Let_def)+

lemma run_callbacks_frame [simp]:
  "retry (run_callbacks cs st) = retry st"
  "retcode (run_callbacks cs st) = retcode st"
  "cr (run_callbacks cs st) = cr st"
  "performs (run_callbacks cs st) = performs st"
  "still_running (run_callbacks cs st) = still_running st"
  "srv_current (run_callbacks cs st) = srv_current st"
  by (induction cs arbitrary: st; simp)+

lemma multi_loop_frame [simp]:
  "retry (multi_loop ps st) = retry st"
  "retcode (multi_loop ps st) = retcode st"
  "cr (multi_loop ps st) = cr st"
  "srv_current (multi_loop ps st) = srv_current st"
  by (induction ps arbitrary: st; simp add: Let_def)+

lemma multi_loop_performs: "set (performs (multi_loop ps st)) \<subseteq> set ps"
  by (induction ps arbitrary: st) (auto simp: Let_def)

lemma multi_loop_inv:
  assumes cb: "\<And>st c. c \<in> C \<Longrightarrow> P (data st) (trace st)
                 \<Longrightarrow> P (data (run_callback c st)) (trace (run_callback c st))"
    and ef: "\<And>d tr e. pass_effect repo fi e \<Longrightarrow> P d tr \<Longrightarrow> P d (tr @ [e])"
  shows "\<forall>p \<in> set ps. set (ps_callbacks p) \<subseteq> C \<Longrightarrow> P (data st) (trace st)
         \<Longrightarrow> P (data (multi_loop ps st)) (trace (multi_loop ps st))"
proof (induction ps arbitrary: st)
  case Nil
  have "pass_effect repo fi Multi_perform" by (simp add: pass_effect_def)
  with Nil ef show ?case by simp
next
  case (Cons p ps)
  have mp: "pass_effect repo fi Multi_perform" by (simp add: pass_effect_def)
  let ?s0 = "emit [Multi_perform] st"
  let ?s1 = "run_callbacks (ps_callbacks p) ?s0"
  have "P (data ?s0) (trace ?s0)" using Cons.prems(2) ef [OF mp] by simp
  moreover have "set (ps_callbacks p) \<subseteq> C" using Cons.prems(1) by simp
  ultimately have s1: "P (data ?s1) (trace ?s1)"
    using run_callbacks_inv [of C P, OF cb] by blast
  have rest: "\<forall>q \<in> set ps. set (ps_callbacks q) \<subseteq> C" using Cons.prems(1) by simp
  show ?case
    using s1 Cons.prems(2) Cons.IH [OF rest, of "?s1\<lparr>still_running := ps_running p\<rparr>"]
    by (simp add: Let_def)
qed

lemma set_path_frame:
  "data (res_state (set_path E repo fi st)) = data st"
  "trace (res_state (set_path E repo fi st)) = trace st"
  "performs (res_state (set_path E repo fi st)) = performs st"
  by (simp_all add: set_path_def res_state_def split: option.splits)

lemma select_target_inv:
  assumes ef: "\<And>d tr e. pass_effect repo fi e \<Longrightarrow> P d tr \<Longrightarrow> P d (tr @ [e])"
    and st: "P (data st) (trace st)"
  shows "P (data (res_state (select_target E repo fi st)))
           (trace (res_state (select_target E repo fi st)))"
proof (cases "mirror_type repo")
  case SRV
  then have "\<And>u. pass_effect repo fi (Setopt_curlu u)" by (simp add: pass_effect_def)
  with ef st SRV show ?thesis
    by (simp add: select_target_def res_state_def Let_def split: option.splits)
next
  case HTTP
  with st show ?thesis by (simp add: select_target_def res_state_def)
next
  case NOMIRROR
  then have "pass_effect repo fi (Setopt_url (fi_url fi))" by (simp add: pass_effect_def)
  with ef st NOMIRROR show ?thesis by (simp add: select_target_def res_state_def)
qed

lemma select_target_performs:
  "performs (res_state (select_target E repo fi st)) = performs st"
  by (simp add: select_target_def res_state_def Let_def split: mirror_t.splits option.splits)

lemma add_handle_inv:
  assumes ef: "\<And>d tr e. pass_effect repo fi e \<Longrightarrow> P d tr \<Longrightarrow> P d (tr @ [e])"
    and st: "P (data st) (trace st)"
  shows "P (data (res_state (add_handle fi st))) (trace (res_state (add_handle fi st)))"
proof -
  have a: "pass_effect repo fi (Setopt_timevalue (fi_mtime fi))"
    and b: "pass_effect repo fi Multi_add_handle"
    by (simp_all add: pass_effect_def)
  have "P (data st) (trace st @ [Setopt_timevalue (fi_mtime fi)])"
    using ef [OF a st] .
  moreover from this have
    "P (data st) ((trace st @ [Setopt_timevalue (fi_mtime fi)]) @ [Multi_add_handle])"
    by (rule ef [OF b])
  ultimately show ?thesis
    by (simp add: add_handle_def res_state_def Let_def split: option.splits)
qed

lemma add_handle_performs: "performs (res_state (add_handle fi st)) = performs st"
  by (simp add: add_handle_def res_state_def Let_def split: option.splits)

lemma attempt_inv:
  assumes cb: "\<And>st c. c \<in> C \<Longrightarrow> P (data st) (trace st)
                 \<Longrightarrow> P (data (run_callback c st)) (trace (run_callback c st))"
    and ef: "\<And>d tr e. pass_effect repo fi e \<Longrightarrow> P d tr \<Longrightarrow> P d (tr @ [e])"
    and sc: "scripted C st"
    and st: "P (data st) (trace st)"
  shows "P (data (res_state (attempt E repo fi st))) (trace (res_state (attempt E repo fi st)))"
    and "scripted C (res_state (attempt E repo fi st))"
proof -
  let ?r1 = "select_target E repo fi st"
  have p1: "P (data (res_state ?r1)) (trace (res_state ?r1))"
    using select_target_inv [of repo fi P, OF ef st] .
  have s1: "scripted C (res_state ?r1)"
    using sc by (simp add: scripted_def select_target_performs)
  show "P (data (res_state (attempt E repo fi st))) (trace (res_state (attempt E repo fi st)))"
  proof (cases ?r1)
    case (Inl x)
    with p1 show ?thesis by (simp add: attempt_def res_state_def)
  next
    case (Inr st1)
    with p1 have q1: "P (data st1) (trace st1)" by (simp add: res_state_def)
    from Inr s1 have sc1: "scripted C st1" by (simp add: res_state_def)
    let ?r2 = "add_handle fi st1"
    have p2: "P (data (res_state ?r2)) (trace (res_state ?r2))"
      using add_handle_inv [of repo fi P, OF ef q1] .
    show ?thesis
    proof (cases ?r2)
      case (Inl y)
      with p2 Inr show ?thesis by (simp add: attempt_def res_state_def)
    next
      case (Inr st2)
      with p2 have q2: "P (data st2) (trace st2)" by (simp add: res_state_def)
      have "performs st2 = performs st1"
        using add_handle_performs [of fi st1] Inr by (simp add: res_state_def)
      with sc1 have "\<forall>p \<in> set (performs st2). set (ps_callbacks p) \<subseteq> C"
        by (simp add: scripted_def)
      then have "P (data (multi_loop (performs st2) st2)) (trace (multi_loop (performs st2) st2))"
        using multi_loop_inv [of C P repo fi, OF cb ef] q2 by blast
      with Inr \<open>?r1 = Inr st1\<close> show ?thesis by (simp add: attempt_def res_state_def)
    qed
  qed
  show "scripted C (res_state (attempt E repo fi st))"
  proof (cases ?r1)
    case (Inl x)
    with s1 show ?thesis by (simp add: attempt_def res_state_def)
  next
    case (Inr st1)
    from Inr s1 have sc1: "scripted C st1" by (simp add: res_state_def)
    show ?thesis
    proof (cases "add_handle fi st1")
      case (Inl y)
      with add_handle_performs [of fi st1] sc1 Inr show ?thesis
        by (simp add: attempt_def res_state_def scripted_def)
    next
      case (Inr st2)
      with add_handle_performs [of fi st1] have "performs st2 = performs st1"
        by (simp add: res_state_def)
      with sc1 multi_loop_performs [of "performs st2" st2] Inr \<open>?r1 = Inr st1\<close>
      show ?thesis by (auto simp: attempt_def res_state_def scripted_def)
    qed
  qed
qed

lemma fclose_fh_fields [simp]:
  "trace (fclose_fh st) = trace st @ [Fclose]"
  "data (fclose_fh st) = (data st)\<lparr>d_fh := False\<rparr>"
  "retry (fclose_fh st) = retry st"
  "retcode (fclose_fh st) = retcode st"
  "cr (fclose_fh st) = cr st"
  "performs (fclose_fh st) = performs st"
  "still_running (fclose_fh st) = still_running st"
  "srv_current (fclose_fh st) = srv_current st"
  by (simp_all add: fclose_fh_def)

lemma fclose_fh_inv:
  assumes ef: "\<And>d tr e. pass_effect repo fi e \<Longrightarrow> P d tr \<Longrightarrow> P d (tr @ [e])"
    and fh: "\<And>d tr. P d tr \<Longrightarrow> P (d\<lparr>d_fh := False\<rparr>) tr"
    and st: "P (data st) (trace st)"
  shows "P (data (fclose_fh st)) (trace (fclose_fh st))"
proof -
  have "pass_effect repo fi Fclose" by (simp add: pass_effect_def)
  from ef [OF this fh [OF st]] show ?thesis by simp
qed

lemma count_failure_inv:
  assumes ef: "\<And>d tr e. pass_effect repo fi e \<Longrightarrow> P d tr \<Longrightarrow> P d (tr @ [e])"
    and st: "P (data st) (trace st)"
  shows "P (data (res_state (count_failure rc st))) (trace (res_state (count_failure rc st)))"
proof -
  have "pass_effect repo fi (Emit_error ''An error occured while fetching package'')"
    by (simp add: pass_effect_def)
  from ef [OF this st] st show ?thesis
    by (simp add: count_failure_def res_state_def Let_def)
qed

lemma count_failure_performs: "performs (res_state (count_failure rc st)) = performs st"
  by (simp add: count_failure_def res_state_def Let_def)

lemma msg_loop_inv:
  assumes cb: "\<And>st c. c \<in> C \<Longrightarrow> P (data st) (trace st)
                 \<Longrightarrow> P (data (run_callback c st)) (trace (run_callback c st))"
    and ef: "\<And>d tr e. pass_effect repo fi e \<Longrightarrow> P d tr \<Longrightarrow> P d (tr @ [e])"
    and fh: "\<And>d tr. P d tr \<Longrightarrow> P (d\<lparr>d_fh := False\<rparr>) tr"
  shows "scripted C st \<Longrightarrow> P (data st) (trace st)
         \<Longrightarrow> P (data (res_state (msg_loop E repo fi ms st)))
               (trace (res_state (msg_loop E repo fi ms st)))"
proof (induction ms arbitrary: st)
  case Nil
  then show ?case by (simp add: res_state_def)
next
  case (Cons m ms)
  let ?c = "fclose_fh st"
  have pc: "P (data ?c) (trace ?c)"
    using fclose_fh_inv [of repo fi P, OF ef fh Cons.prems(2)] .
  have sc: "scripted C ?c" using Cons.prems(1) by (simp add: scripted_def)
  show ?case
  proof (cases m)
    case CURLMSG_OTHER
    have "pass_effect repo fi (Emit_error ''An error occured while fetching package'')"
      by (simp add: pass_effect_def)
    from ef [OF this pc]
    have "P (data (emit [Emit_error ''An error occured while fetching package''] ?c))
            (trace (emit [Emit_error ''An error occured while fetching package''] ?c))"
      by simp
    moreover have "scripted C (emit [Emit_error ''An error occured while fetching package''] ?c)"
      using sc by (simp add: scripted_def)
    ultimately show ?thesis using Cons.IH CURLMSG_OTHER by simp
  next
    case (CURLMSG_DONE rc)
    show ?thesis
    proof (cases "rc = 304")
      case True
      have "P (data (?c\<lparr>retcode := EPKG_UPTODATE\<rparr>)) (trace (?c\<lparr>retcode := EPKG_UPTODATE\<rparr>))"
        using pc by simp
      moreover have "scripted C (?c\<lparr>retcode := EPKG_UPTODATE\<rparr>)"
        using sc by (simp add: scripted_def)
      ultimately show ?thesis using Cons.IH CURLMSG_DONE True by simp
    next
      case False
      show ?thesis
      proof (cases "rc = 200")
        case True
        with Cons.IH [OF sc pc] CURLMSG_DONE show ?thesis by simp
      next
        case False
        let ?r1 = "count_failure rc ?c"
        have p1: "P (data (res_state ?r1)) (trace (res_state ?r1))"
          using count_failure_inv [of repo fi P, OF ef pc] .
        have s1: "scripted C (res_state ?r1)"
          using sc by (simp add: scripted_def count_failure_performs)
        show ?thesis
        proof (cases ?r1)
          case (Inl x)
          with p1 CURLMSG_DONE False \<open>rc \<noteq> 304\<close> show ?thesis by (simp add: res_state_def)
        next
          case (Inr st1)
          with p1 s1 have q1: "P (data st1) (trace st1)" and sc1: "scripted C st1"
            by (simp_all add: res_state_def)
          let ?r2 = "attempt E repo fi st1"
          have p2: "P (data (res_state ?r2)) (trace (res_state ?r2))"
            and s2: "scripted C (res_state ?r2)"
            using attempt_inv [of C P repo fi st1 E, OF cb ef sc1 q1] by blast+
          show ?thesis
          proof (cases ?r2)
            case (Inl y)
            with p2 Inr CURLMSG_DONE False \<open>rc \<noteq> 304\<close> show ?thesis
              by (simp add: res_state_def)
          next
            case (Inr st2)
            with p2 s2 have "P (data st2) (trace st2)" "scripted C st2"
              by (simp_all add: res_state_def)
            from Cons.IH [OF this(2) this(1)] Inr \<open>?r1 = Inr st1\<close> CURLMSG_DONE False
              \<open>rc \<noteq> 304\<close>
            show ?thesis by simp
          qed
        qed
      qed
    qed
  qed
qed

text \<open>The trace of a whole call satisfies every property the steps keep.\<close>

lemma curl_fetch_inv:
  assumes cb: "\<And>st c. c \<in> C \<Longrightarrow> P (data st) (trace st)
                 \<Longrightarrow> P (data (run_callback c st)) (trace (run_callback c st))"
    and ef: "\<And>d tr e. pass_effect repo fi e \<Longrightarrow> P d tr \<Longrightarrow> P d (tr @ [e])"
    and fh: "\<And>d tr. P d tr \<Longrightarrow> P (d\<lparr>d_fh := False\<rparr>) tr"
    and sc: "\<forall>p \<in> set (t_performs T). set (ps_callbacks p) \<subseteq> C"
    and ok: "fdopen_ok T"
    and init: "P (data (fetch_init E repo fi T)) [Fdopen]"
  shows "\<exists>d. P d (r_trace (curl_fetch E repo fi T))"
proof -
  let ?i = "fetch_init E repo fi T"
  let ?r0 = "set_path E repo fi ?i"
  have p0: "P (data (res_state ?r0)) (trace (res_state ?r0))"
    using init by (simp add: set_path_frame fetch_init_def)
  have s0: "scripted C (res_state ?r0)"
    using sc by (simp add: scripted_def set_path_frame fetch_init_def)
  show ?thesis
  proof (cases ?r0)
    case (Inl x)
    with p0 ok show ?thesis by (auto simp: curl_fetch_def crashed_def res_state_def)
  next
    case (Inr st0)
    with p0 s0 have q0: "P (data st0) (trace st0)" and sc0: "scripted C st0"
      by (simp_all add: res_state_def)
    let ?r1 = "attempt E repo fi st0"
    have p1: "P (data (res_state ?r1)) (trace (res_state ?r1))"
      and s1: "scripted C (res_state ?r1)"
      using attempt_inv [of C P repo fi st0 E, OF cb ef sc0 q0] by blast+
    show ?thesis
    proof (cases ?r1)
      case (Inl y)
      with p1 ok \<open>?r0 = Inr st0\<close> show ?thesis
        by (auto simp: curl_fetch_def crashed_def res_state_def)
    next
      case (Inr st1)
      with p1 s1 have q1: "P (data st1) (trace st1)" and sc1: "scripted C st1"
        by (simp_all add: res_state_def)
      let ?r2 = "msg_loop E repo fi (t_msgs T) st1"
      have p2: "P (data (res_state ?r2)) (trace (res_state ?r2))"
        using msg_loop_inv [of C P repo fi st1 E, OF cb ef fh sc1 q1] .
      show ?thesis
      proof (cases ?r2)
        case (Inl z)
        with p2 ok Inr \<open>?r0 = Inr st0\<close> show ?thesis
          by (auto simp: curl_fetch_def crashed_def res_state_def)
      next
        case (Inr st2)
        with p2 ok \<open>?r1 = Inr st1\<close> \<open>?r0 = Inr st0\<close> show ?thesis
          by (auto simp: curl_fetch_def res_state_def)
      qed
    qed
  qed
qed

subsection \<open>The fetch-begin event\<close>

lemma after_200_append:
  assumes "after_200 tr"
    and "\<forall>i < length es. is_begin (es ! i) \<longrightarrow> Header_response 200 \<in> set tr \<union> set (take i es)"
  shows "after_200 (tr @ es)"
  unfolding after_200_def
proof (intro allI impI)
  fix i assume i: "i < length (tr @ es)" and b: "is_begin ((tr @ es) ! i)"
  show "Header_response 200 \<in> set (take i (tr @ es))"
  proof (cases "i < length tr")
    case True
    with assms(1) b show ?thesis by (simp add: after_200_def nth_append)
  next
    case False
    with i b assms(2) show ?thesis by (auto simp: nth_append)
  qed
qed

lemma pass_effect_quiet: "pass_effect repo fi e \<Longrightarrow> \<not> is_begin e \<and> e \<noteq> Header_response c"
  by (cases e) (simp_all add: pass_effect_def)

lemma begin_inv_effect: "pass_effect repo fi e \<Longrightarrow> begin_inv d tr \<Longrightarrow> begin_inv d (tr @ [e])"
  using pass_effect_quiet [of repo fi e]
  by (auto simp: begin_inv_def intro!: after_200_append)

lemma begin_inv_callback:
  assumes "begin_inv (data st) (trace st)"
  shows "begin_inv (data (run_callback c st)) (trace (run_callback c st))"
proof (cases c)
  case (Header_cb code)
  show ?thesis
  proof (cases "code = 200 \<and> \<not> d_started (data st)")
    case True
    have "after_200 (trace st @ [Header_response 200, Fetch_begin (d_url (data st)), Progress_start])"
      using assms by (intro after_200_append) (auto simp: begin_inv_def less_Suc_eq)
    with True assms Header_cb show ?thesis
      by (simp add: curl_parseheader_cb_def begin_inv_def Let_def)
  next
    case False
    have "after_200 (trace st @ [Header_response code])"
      using assms by (intro after_200_append) (auto simp: begin_inv_def)
    with False assms Header_cb show ?thesis
      by (auto simp: curl_parseheader_cb_def begin_inv_def Let_def)
  qed
next
  case (Progress_cb a b)
  have "after_200 (trace st @ [Progress_tick b a])"
    using assms by (intro after_200_append) (auto simp: begin_inv_def)
  with assms Progress_cb show ?thesis
    by (auto simp: curl_progress_cb_def begin_inv_def)
next
  case (Write_cb n)
  have "after_200 (trace st @ [Fwrite n])"
    using assms by (intro after_200_append) (auto simp: begin_inv_def)
  with assms Write_cb show ?thesis
    by (auto simp: curl_write_cb_def begin_inv_def)
qed

text \<open>
  Claim C3. In the trace of any call of \<^verbatim>\<open>curl_fetch\<close> there is at most one
  fetch-begin, however many passes the call makes; every fetch-begin has a header
  callback that read the response code 200 before it; and when some header callback read
  200, there is exactly one fetch-begin, however many header lines the callback saw.
\<close>

theorem fetch_begin_once:
  "length (filter is_begin (r_trace (curl_fetch E repo fi T))) \<le> 1
   \<and> after_200 (r_trace (curl_fetch E repo fi T))
   \<and> (Header_response 200 \<in> set (r_trace (curl_fetch E repo fi T))
        \<longrightarrow> length (filter is_begin (r_trace (curl_fetch E repo fi T))) = 1)"
proof (cases "fdopen_ok T")
  case False
  then show ?thesis by (simp add: curl_fetch_def after_200_def)
next
  case True
  have "\<exists>d. begin_inv d (r_trace (curl_fetch E repo fi T))"
  proof (rule curl_fetch_inv [where C = UNIV and P = begin_inv])
    show "begin_inv (data (fetch_init E repo fi T)) [Fdopen]"
      by (simp add: begin_inv_def fetch_init_def after_200_def)
    show "\<And>st c. begin_inv (data st) (trace st)
            \<Longrightarrow> begin_inv (data (run_callback c st)) (trace (run_callback c st))"
      by (rule begin_inv_callback)
    show "\<And>d tr e. pass_effect repo fi e \<Longrightarrow> begin_inv d tr \<Longrightarrow> begin_inv d (tr @ [e])"
      by (rule begin_inv_effect)
    show "\<And>d tr. begin_inv d tr \<Longrightarrow> begin_inv (d\<lparr>d_fh := False\<rparr>) tr"
      by (simp add: begin_inv_def)
  qed (use True in simp_all)
  then show ?thesis by (auto simp: begin_inv_def)
qed

text \<open>
  The invariant on a call that receives a 200 with two header lines: the trace holds a
  header callback that read 200, so it holds exactly one fetch-begin, which comes after
  that callback.
\<close>

theorem fetch_begin_once_witness:
  "Header_response 200 \<in> set (r_trace (curl_fetch (collab 3) direct_repo item0
      (stub [answer 200] [CURLMSG_DONE 200] 77)))
   \<and> length (filter is_begin (r_trace (curl_fetch (collab 3) direct_repo item0
      (stub [answer 200] [CURLMSG_DONE 200] 77)))) = 1
   \<and> is_begin (r_trace (curl_fetch (collab 3) direct_repo item0
      (stub [answer 200] [CURLMSG_DONE 200] 77)) ! 6)
   \<and> Header_response 200 \<in> set (take 6 (r_trace (curl_fetch (collab 3) direct_repo item0
      (stub [answer 200] [CURLMSG_DONE 200] 77))))"
proof -
  let ?tr = "r_trace (curl_fetch (collab 3) direct_repo item0
      (stub [answer 200] [CURLMSG_DONE 200] 77))"
  have tr: "?tr = [Fdopen, Setopt_url ''http://mirror/pkg.txz'', Setopt_timevalue 0,
      Multi_add_handle, Multi_perform, Header_response 200,
      Fetch_begin ''http://mirror/pkg.txz'', Progress_start, Header_response 200,
      Progress_tick 40 100, Fwrite 40, Fclose]"
    by (simp add: run_simps example_simps)
  have seen: "Header_response 200 \<in> set ?tr" and at: "6 < length ?tr" "is_begin (?tr ! 6)"
    by (simp_all add: tr)
  note inv = fetch_begin_once [of "collab 3" direct_repo item0 "stub [answer 200] [CURLMSG_DONE 200] 77"]
  from inv seen have one: "length (filter is_begin ?tr) = 1" by blast
  from inv have "after_200 ?tr" by blast
  with at have "Header_response 200 \<in> set (take 6 ?tr)"
    unfolding after_200_def by blast
  with seen one at show ?thesis by blast
qed

subsection \<open>The stream and the error count along a pass\<close>

lemma errors_append [simp]: "errors (tr @ es) = errors tr + errors es"
  by (simp add: errors_def)

lemma errors_Nil [simp]: "errors [] = 0"
  by (simp add: errors_def)

lemma errors_Cons [simp]: "errors (e # es) = (if is_error e then 1 else 0) + errors es"
  by (simp add: errors_def)

lemma errors_callback [simp]: "errors (trace (run_callback c st)) = errors (trace st)"
  by (cases c) (simp_all add: curl_parseheader_cb_def curl_progress_cb_def curl_write_cb_def
      Let_def)

lemma errors_callbacks [simp]: "errors (trace (run_callbacks cs st)) = errors (trace st)"
  by (induction cs arbitrary: st) simp_all

lemma errors_multi_loop [simp]: "errors (trace (multi_loop ps st)) = errors (trace st)"
  by (induction ps arbitrary: st) (simp_all add: Let_def)

lemma stream_scan_append:
  "stream_scan b (xs @ ys) =
     (case stream_scan b xs of None \<Rightarrow> None | Some b' \<Rightarrow> stream_scan b' ys)"
  by (induction b xs rule: stream_scan.induct) simp_all

lemma stream_scan_callback:
  assumes "stream_scan False (trace st) = Some True"
  shows "stream_scan False (trace (run_callback c st)) = Some True"
  using assms
  by (cases c)
     (simp_all add: curl_parseheader_cb_def curl_progress_cb_def curl_write_cb_def Let_def
        stream_scan_append)

lemma stream_scan_callbacks:
  "stream_scan False (trace st) = Some True
   \<Longrightarrow> stream_scan False (trace (run_callbacks cs st)) = Some True"
  by (induction cs arbitrary: st) (simp_all add: stream_scan_callback)

lemma stream_scan_multi_loop:
  "stream_scan False (trace st) = Some True
   \<Longrightarrow> stream_scan False (trace (multi_loop ps st)) = Some True"
proof (induction ps arbitrary: st)
  case Nil
  then show ?case by (simp add: stream_scan_append)
next
  case (Cons p ps)
  have "stream_scan False (trace (run_callbacks (ps_callbacks p) (emit [Multi_perform] st)))
          = Some True"
    using Cons.prems by (intro stream_scan_callbacks) (simp add: stream_scan_append)
  with Cons.prems Cons.IH
    [of "(run_callbacks (ps_callbacks p) (emit [Multi_perform] st))\<lparr>still_running := ps_running p\<rparr>"]
  show ?case by (simp add: Let_def)
qed

lemma multi_loop_idle:
  "\<forall>p \<in> set ps. ps_mc p = 0 \<and> ps_poll_mc p = 0 \<Longrightarrow> still_running (multi_loop ps st) = 0"
  by (induction ps arbitrary: st) (simp_all add: Let_def)

lemma multi_loop_skip: "still_running st = 0 \<Longrightarrow> multi_loop ps st = st\<lparr>performs := ps\<rparr>"
  by (cases ps) simp_all

text \<open>The first pass of a call on an open session.\<close>

lemma first_pass:
  assumes "fdopen_ok T" and "fetch_priv repo \<noteq> None"
    and "mirror_type repo = SRV \<longrightarrow> srv repo \<noteq> None"
  shows "\<exists>st. curl_fetch E repo fi T =
               (case msg_loop E repo fi (t_msgs T) st of
                  Inl x \<Rightarrow> crashed repo fi x
                | Inr st2 \<Rightarrow>
                    \<lparr>r_code = Inr (retcode st2), r_item = fi\<lparr>fi_mtime := t_filetime T\<rparr>,
                     r_repo = repo\<lparr>fetch_priv := cr st2\<rparr>, r_trace = trace st2\<rparr>)
           \<and> retry st = fetch_retry E \<and> retcode st = EPKG_OK \<and> cr st \<noteq> None
           \<and> errors (trace st) = 0
           \<and> stream_scan False (trace st) = Some True
           \<and> ((\<forall>p \<in> set (t_performs T). ps_mc p = 0 \<and> ps_poll_mc p = 0)
                \<longrightarrow> still_running st = 0)"
proof -
  let ?i = "fetch_init E repo fi T"
  from assms(2) obtain c where c: "fetch_priv repo = Some c" by auto
  obtain st0 where st0: "set_path E repo fi ?i = Inr st0" "trace st0 = [Fdopen]"
    "retry st0 = fetch_retry E" "retcode st0 = EPKG_OK" "cr st0 \<noteq> None"
    "srv_current st0 = None" "performs st0 = t_performs T"
    using c by (cases "mirror_type repo = SRV") (auto simp: set_path_def fetch_init_def)
  from st0(5) obtain c0 where c0: "cr st0 = Some c0" by auto
  obtain st1 where st1: "select_target E repo fi st0 = Inr st1" "retry st1 = retry st0"
    "retcode st1 = retcode st0" "cr st1 \<noteq> None" "performs st1 = performs st0"
    "errors (trace st1) = 0" "stream_scan False (trace st1) = Some True"
    using assms(3) st0 c0
    by (cases "mirror_type repo")
       (auto simp: select_target_def Let_def stream_scan_append errors_def)
  from st1(4) obtain c1 where c1: "cr st1 = Some c1" by auto
  let ?st2 = "emit [Multi_add_handle] (emit [Setopt_timevalue (fi_mtime fi)] st1)"
  have ah: "add_handle fi st1 = Inr ?st2" using c1 by (simp add: add_handle_def Let_def)
  let ?st = "multi_loop (performs ?st2) ?st2"
  have at: "attempt E repo fi st0 = Inr ?st" using st1(1) ah by (simp add: attempt_def)
  have "stream_scan False (trace ?st2) = Some True"
    using st1(7) by (simp add: stream_scan_append)
  then have ss: "stream_scan False (trace ?st) = Some True" by (rule stream_scan_multi_loop)
  have er: "errors (trace ?st) = 0" using st1(6) by simp
  have idle: "still_running ?st = 0"
    if "\<forall>p \<in> set (t_performs T). ps_mc p = 0 \<and> ps_poll_mc p = 0"
    using that st1(5) st0(7) by (simp add: multi_loop_idle)
  have "curl_fetch E repo fi T =
               (case msg_loop E repo fi (t_msgs T) ?st of
                  Inl x \<Rightarrow> crashed repo fi x
                | Inr st2 \<Rightarrow>
                    \<lparr>r_code = Inr (retcode st2), r_item = fi\<lparr>fi_mtime := t_filetime T\<rparr>,
                     r_repo = repo\<lparr>fetch_priv := cr st2\<rparr>, r_trace = trace st2\<rparr>)"
    using assms(1) st0(1) at by (simp add: curl_fetch_def)
  moreover have "retry ?st = fetch_retry E" "retcode ?st = EPKG_OK" "cr ?st \<noteq> None"
    using st1 st0 by simp_all
  ultimately show ?thesis using ss er idle by blast
qed

text \<open>A pass that finds nothing running fires no callback.\<close>

lemma idle_pass:
  assumes "still_running st = 0"
  shows "errors (trace (res_state (attempt E repo fi st))) = errors (trace st)"
    and "stream_scan b (trace (res_state (attempt E repo fi st))) = stream_scan b (trace st)"
    and "retcode (res_state (attempt E repo fi st)) = retcode st"
  using assms
  by (auto simp: attempt_def select_target_def add_handle_def res_state_def Let_def
        multi_loop_skip stream_scan_append errors_def
        split: mirror_t.splits option.splits)

lemma idle_pass_returns:
  assumes "mirror_type repo \<noteq> SRV" and "cr st \<noteq> None"
  shows "\<exists>st'. attempt E repo fi st = Inr st'"
  using assms
  by (cases "mirror_type repo") (auto simp: attempt_def select_target_def add_handle_def Let_def)

lemma curl_fetch_trace:
  assumes "curl_fetch E repo fi T =
               (case msg_loop E repo fi (t_msgs T) st of
                  Inl x \<Rightarrow> crashed repo fi x
                | Inr st2 \<Rightarrow>
                    \<lparr>r_code = Inr (retcode st2), r_item = fi\<lparr>fi_mtime := t_filetime T\<rparr>,
                     r_repo = repo\<lparr>fetch_priv := cr st2\<rparr>, r_trace = trace st2\<rparr>)"
  shows "r_trace (curl_fetch E repo fi T) = trace (res_state (msg_loop E repo fi (t_msgs T) st))"
  using assms by (simp add: crashed_def res_state_def split: sum.splits)

text \<open>
  One completion message that is a failure: the stream is closed once, the failure is
  counted, and the pass that follows finds nothing running.
\<close>

lemma single_failure:
  assumes "fdopen_ok T" and "fetch_priv repo \<noteq> None"
    and "mirror_type repo = SRV \<longrightarrow> srv repo \<noteq> None"
    and "\<forall>p \<in> set (t_performs T). ps_mc p = 0 \<and> ps_poll_mc p = 0"
    and "0 \<le> fetch_retry E"
    and "t_msgs T = [CURLMSG_DONE rc]" and "rc \<noteq> 200" and "rc \<noteq> 304"
  shows "errors (r_trace (curl_fetch E repo fi T))
           = (if fetch_retry E \<le> 1 \<or> rc = 404 then 1 else 0)"
    and "stream_ok (r_trace (curl_fetch E repo fi T))"
    and "fetch_retry E \<le> 1 \<or> rc = 404 \<Longrightarrow> mirror_type repo \<noteq> SRV
         \<Longrightarrow> r_code (curl_fetch E repo fi T) = Inr EPKG_FATAL"
proof -
  from first_pass [OF assms(1,2,3), of E fi] assms(4) obtain st where
    run: "curl_fetch E repo fi T =
               (case msg_loop E repo fi (t_msgs T) st of
                  Inl x \<Rightarrow> crashed repo fi x
                | Inr st2 \<Rightarrow>
                    \<lparr>r_code = Inr (retcode st2), r_item = fi\<lparr>fi_mtime := t_filetime T\<rparr>,
                     r_repo = repo\<lparr>fetch_priv := cr st2\<rparr>, r_trace = trace st2\<rparr>)"
    and st: "retry st = fetch_retry E" "retcode st = EPKG_OK" "cr st \<noteq> None"
      "errors (trace st) = 0" "stream_scan False (trace st) = Some True" "still_running st = 0"
    by blast
  let ?fatal = "fetch_retry E \<le> 1 \<or> rc = 404"
  obtain s1 where s1: "count_failure rc (fclose_fh st) = Inr s1"
    "errors (trace s1) = (if ?fatal then 1 else 0)"
    "stream_scan False (trace s1) = Some False" "still_running s1 = 0" "cr s1 \<noteq> None"
    "?fatal \<longrightarrow> retcode s1 = EPKG_FATAL"
    using st assms(5)
    by (cases ?fatal) (auto simp: count_failure_def Let_def stream_scan_append)
  have loop: "msg_loop E repo fi (t_msgs T) st =
                (case attempt E repo fi s1 of Inl x \<Rightarrow> Inl x | Inr s2 \<Rightarrow> Inr s2)"
    using assms(6,7,8) s1(1) by (simp split: sum.splits)
  then have rs: "res_state (msg_loop E repo fi (t_msgs T) st) = res_state (attempt E repo fi s1)"
    by (simp add: res_state_def split: sum.splits)
  have tr: "r_trace (curl_fetch E repo fi T) = trace (res_state (attempt E repo fi s1))"
    using curl_fetch_trace [OF run] rs by simp
  show "errors (r_trace (curl_fetch E repo fi T)) = (if ?fatal then 1 else 0)"
    using tr idle_pass(1) [OF s1(4), of E repo fi] s1(2) by simp
  show "stream_ok (r_trace (curl_fetch E repo fi T))"
    using tr idle_pass(2) [OF s1(4), of False E repo fi] s1(3) by (simp add: stream_ok_def)
  show "r_code (curl_fetch E repo fi T) = Inr EPKG_FATAL"
    if f: ?fatal and m: "mirror_type repo \<noteq> SRV"
  proof -
    from idle_pass_returns [OF m s1(5), of E fi] obtain s2 where
      s2: "attempt E repo fi s1 = Inr s2" by blast
    with idle_pass(3) [OF s1(4), of E repo fi] s1(6) f have "retcode s2 = EPKG_FATAL"
      by (simp add: res_state_def)
    with run loop s2 show ?thesis by simp
  qed
qed

subsection \<open>The retry budget\<close>

text \<open>
  Claim C2, as amended. The budget counts attempts, not retries: line 233 decrements it
  at a failed attempt before line 234 tests it. So with a ceiling \<open>N\<close> of 0 or 1, on a
  session that is open and does not use SRV records, a call whose one attempt ends in a
  transient failure (a completion with a response code other than 200, 304 and 404;
  the response code is all the code looks at) returns \<open>EPKG_FATAL\<close> with exactly one
  error diagnostic, after that one failed attempt: for \<open>N = 1\<close> after \<open>N\<close> attempts, not
  \<open>N + 1\<close>. This is for a multi handle that reports no error, and the trace of the call
  then stays within the defined behaviour of the stream. Nothing is said of a call
  with a second completion message, which closes the closed stream, nor of what a call
  returns while budget is left.
\<close>

theorem retry_budget:
  assumes "0 \<le> fetch_retry E" and "fetch_retry E \<le> 1"
    and "fdopen_ok T" and "fetch_priv repo \<noteq> None" and "mirror_type repo \<noteq> SRV"
    and "\<forall>p \<in> set (t_performs T). ps_mc p = 0 \<and> ps_poll_mc p = 0"
    and "t_msgs T = [CURLMSG_DONE rc]" and "transient rc"
  shows "r_code (curl_fetch E repo fi T) = Inr EPKG_FATAL
       \<and> errors (r_trace (curl_fetch E repo fi T)) = 1
       \<and> stream_ok (r_trace (curl_fetch E repo fi T))"
proof -
  from assms(8) have rc: "rc \<noteq> 200" "rc \<noteq> 304" by (simp_all add: transient_def)
  from assms(5) have srv: "mirror_type repo = SRV \<longrightarrow> srv repo \<noteq> None" by simp
  note f = single_failure [OF assms(3,4) srv assms(6,1,7) rc, of fi]
  from f(1) assms(2) have "errors (r_trace (curl_fetch E repo fi T)) = 1" by simp
  moreover from f(3) assms(2,5) have "r_code (curl_fetch E repo fi T) = Inr EPKG_FATAL" by simp
  ultimately show ?thesis using f(2) by simp
qed

text \<open>A ceiling of 1 and a 503.\<close>

theorem retry_budget_witness:
  "r_code (curl_fetch (collab 1) direct_repo item0
      (stub [answer 503] [CURLMSG_DONE 503] 77)) = Inr EPKG_FATAL
   \<and> errors (r_trace (curl_fetch (collab 1) direct_repo item0
      (stub [answer 503] [CURLMSG_DONE 503] 77))) = 1
   \<and> stream_ok (r_trace (curl_fetch (collab 1) direct_repo item0
      (stub [answer 503] [CURLMSG_DONE 503] 77)))"
proof -
  let ?T = "stub [answer 503] [CURLMSG_DONE 503] 77"
  have h: "0 \<le> fetch_retry (collab 1)" "fetch_retry (collab 1) \<le> 1" "fdopen_ok ?T"
    "fetch_priv direct_repo \<noteq> None" "mirror_type direct_repo \<noteq> SRV"
    "\<forall>p \<in> set (t_performs ?T). ps_mc p = 0 \<and> ps_poll_mc p = 0"
    "t_msgs ?T = [CURLMSG_DONE 503]" "transient 503"
    by (simp_all add: collab_def direct_repo_def stub_def answer_def transient_def)
  from retry_budget [OF h, of item0] show ?thesis .
qed

text \<open>
  Claim C2 as stated fails at a ceiling of 1. One transfer is driven and ends with a
  500; the diagnostic follows its completion at once and the call returns
  \<open>EPKG_FATAL\<close>: after one failed attempt, where the claim has \<open>N + 1 = 2\<close>. The pass
  after the diagnostic drives nothing; counted as an attempt all the same, it makes two
  attempts at a ceiling of 0, where the claim has \<open>N + 1 = 1\<close> and excludes \<open>N + 2\<close>.
  The other four facts are why the amended claim stops where it does: a failure
  followed by a success closes the closed stream; on a session with one SRV record the
  pass after the failure dereferences NULL; with budget left, at a ceiling of 3, a call
  whose only attempt failed returns \<open>EPKG_OK\<close>, which is nothing to promise; and after
  an error of \<^verbatim>\<open>curl_multi_poll\<close> the next pass writes to the closed stream.
\<close>

theorem retry_budget_counterexample:
  "r_code (curl_fetch (collab 1) direct_repo item0
      (stub [answer 500] [CURLMSG_DONE 500] 77)) = Inr EPKG_FATAL
   \<and> r_trace (curl_fetch (collab 1) direct_repo item0
        (stub [answer 500] [CURLMSG_DONE 500] 77))
     = [Fdopen, Setopt_url ''http://mirror/pkg.txz'', Setopt_timevalue 0, Multi_add_handle,
        Multi_perform, Header_response 500, Header_response 500, Fwrite 40, Fclose,
        Emit_error ''An error occured while fetching package'',
        Setopt_url ''http://mirror/pkg.txz'', Setopt_timevalue 0, Multi_add_handle]
   \<and> r_trace (curl_fetch (collab 0) direct_repo item0
        (stub [answer 500] [CURLMSG_DONE 500] 77))
     = [Fdopen, Setopt_url ''http://mirror/pkg.txz'', Setopt_timevalue 0, Multi_add_handle,
        Multi_perform, Header_response 500, Header_response 500, Fwrite 40, Fclose,
        Emit_error ''An error occured while fetching package'',
        Setopt_url ''http://mirror/pkg.txz'', Setopt_timevalue 0, Multi_add_handle]
   \<and> \<not> stream_ok (r_trace (curl_fetch (collab 3) direct_repo item0
        (stub [answer 500] [CURLMSG_DONE 500, CURLMSG_DONE 200] 77)))
   \<and> r_code (curl_fetch (collab 1) one_record_repo item0
        (stub [answer 500] [CURLMSG_DONE 500] 77)) = Inl Null_deref
   \<and> r_code (curl_fetch (collab 3) direct_repo item0
        (stub [answer 500] [CURLMSG_DONE 500] 77)) = Inr EPKG_OK
   \<and> \<not> stream_ok (r_trace (curl_fetch (collab 1) direct_repo item0
        (stub [\<lparr>ps_callbacks = [Header_cb 500, Write_cb 3], ps_running = 1, ps_mc = 0,
                ps_poll_mc = 1\<rparr>,
               \<lparr>ps_callbacks = [Header_cb 500, Write_cb 10], ps_running = 0, ps_mc = 0,
                ps_poll_mc = 0\<rparr>]
           [CURLMSG_DONE 500] 77)))"
  by (simp add: run_simps example_simps stream_ok_def)

subsection \<open>The error diagnostic\<close>

text \<open>
  Claim C5, as amended. An error diagnostic is emitted for a failure only under the
  guard of line 234, that is when the failure exhausts the budget or is a 404; a failure
  that is retried with budget left emits none. On an open session (with its SRV
  records resolved, if it uses them), with a ceiling \<open>N \<ge> 0\<close>, a destination that can
  be opened and a multi handle that reports no error, a call with one completion
  message, whose response code is neither 200 nor 304, emits exactly one error
  diagnostic if \<open>N \<le> 1\<close> or the code is 404, and none otherwise; its trace stays within
  the defined behaviour of the stream. With a ceiling of 3 and a transport that returns
  500, no diagnostic is emitted. Nothing is said of the return code, nor of a call with
  a second completion message.
\<close>

theorem retried_failures_are_silent:
  assumes "0 \<le> fetch_retry E"
    and "fdopen_ok T" and "fetch_priv repo \<noteq> None"
    and "mirror_type repo = SRV \<longrightarrow> srv repo \<noteq> None"
    and "\<forall>p \<in> set (t_performs T). ps_mc p = 0 \<and> ps_poll_mc p = 0"
    and "t_msgs T = [CURLMSG_DONE rc]" and "rc \<noteq> 200" and "rc \<noteq> 304"
  shows "errors (r_trace (curl_fetch E repo fi T))
           = (if fetch_retry E \<le> 1 \<or> rc = 404 then 1 else 0)
       \<and> stream_ok (r_trace (curl_fetch E repo fi T))"
  using single_failure(1,2) [OF assms(2,3,4,5,1,6,7,8), of fi] by simp

text \<open>A ceiling of 3: a 500 is retried in silence, a 404 is reported.\<close>

theorem retried_failures_are_silent_witness:
  "errors (r_trace (curl_fetch (collab 3) direct_repo item0
      (stub [answer 500] [CURLMSG_DONE 500] 77))) = 0
   \<and> stream_ok (r_trace (curl_fetch (collab 3) direct_repo item0
      (stub [answer 500] [CURLMSG_DONE 500] 77)))
   \<and> errors (r_trace (curl_fetch (collab 3) direct_repo item0
      (stub [answer 404] [CURLMSG_DONE 404] 77))) = 1"
proof -
  have h: "0 \<le> fetch_retry (collab 3)" "fdopen_ok (stub [answer rc] [CURLMSG_DONE rc] 77)"
    "fetch_priv direct_repo \<noteq> None" "mirror_type direct_repo = SRV \<longrightarrow> srv direct_repo \<noteq> None"
    "\<forall>p \<in> set (t_performs (stub [answer rc] [CURLMSG_DONE rc] 77)).
       ps_mc p = 0 \<and> ps_poll_mc p = 0"
    "t_msgs (stub [answer rc] [CURLMSG_DONE rc] 77) = [CURLMSG_DONE rc]" for rc
    by (simp_all add: collab_def direct_repo_def stub_def answer_def)
  have r: "\<not> fetch_retry (collab 3) \<le> 1" by (simp add: collab_def)
  from retried_failures_are_silent [OF h, of 500 item0] r
  have "errors (r_trace (curl_fetch (collab 3) direct_repo item0
          (stub [answer 500] [CURLMSG_DONE 500] 77))) = 0
        \<and> stream_ok (r_trace (curl_fetch (collab 3) direct_repo item0
          (stub [answer 500] [CURLMSG_DONE 500] 77)))"
    by simp
  moreover from retried_failures_are_silent [OF h, of 404 item0]
  have "errors (r_trace (curl_fetch (collab 3) direct_repo item0
          (stub [answer 404] [CURLMSG_DONE 404] 77))) = 1"
    by simp
  ultimately show ?thesis by simp
qed

text \<open>
  Claim C5 as stated fails at a ceiling of 3 and a 500: the failure is classified and
  retried (the request is configured and the handle added again), and the trace holds
  no error diagnostic. The other two facts are why the amended claim stops where it
  does: the scenario of the claim itself, 500, 500 and 200, closes the closed stream at
  its second message, and after an error of \<^verbatim>\<open>curl_multi_poll\<close> the next pass writes
  to the closed stream.
\<close>

theorem retried_failures_counterexample:
  "errors (r_trace (curl_fetch (collab 3) direct_repo item0
      (stub [answer 500] [CURLMSG_DONE 500] 77))) = 0
   \<and> r_trace (curl_fetch (collab 3) direct_repo item0
        (stub [answer 500] [CURLMSG_DONE 500] 77))
     = [Fdopen, Setopt_url ''http://mirror/pkg.txz'', Setopt_timevalue 0, Multi_add_handle,
        Multi_perform, Header_response 500, Header_response 500, Fwrite 40, Fclose,
        Setopt_url ''http://mirror/pkg.txz'', Setopt_timevalue 0, Multi_add_handle]
   \<and> \<not> stream_ok (r_trace (curl_fetch (collab 3) direct_repo item0
        (stub [answer 500, answer 500, answer 200]
           [CURLMSG_DONE 500, CURLMSG_DONE 500, CURLMSG_DONE 200] 77)))
   \<and> \<not> stream_ok (r_trace (curl_fetch (collab 3) direct_repo item0
        (stub [\<lparr>ps_callbacks = [Header_cb 500, Write_cb 3], ps_running = 1, ps_mc = 0,
                ps_poll_mc = 1\<rparr>,
               \<lparr>ps_callbacks = [Header_cb 500, Write_cb 10], ps_running = 0, ps_mc = 0,
                ps_poll_mc = 0\<rparr>]
           [CURLMSG_DONE 500] 77)))"
  by (simp add: run_simps example_simps stream_ok_def errors_def)

subsection \<open>A response that is not modified\<close>

lemma quiet_inv_callback:
  assumes "c \<noteq> Header_cb 200" and "quiet_inv (data st) (trace st)"
  shows "quiet_inv (data (run_callback c st)) (trace (run_callback c st))"
  using assms
  by (cases c)
     (auto simp: quiet_inv_def curl_parseheader_cb_def curl_progress_cb_def curl_write_cb_def
        Let_def)

lemma quiet_inv_effect: "pass_effect repo fi e \<Longrightarrow> quiet_inv d tr \<Longrightarrow> quiet_inv d (tr @ [e])"
  by (cases e) (auto simp: quiet_inv_def pass_effect_def)

text \<open>
  Claim C4, as amended. On an open session (with its SRV records resolved, if it uses
  them) and with a destination that can be opened, a call whose one completion message
  is a 304 returns \<open>EPKG_UPTODATE\<close>, and the item's modification time is then the file
  time the transport reports for the handle, not the time the item had: line 246
  stores it on every path. When no header callback has read 200, the call emits no
  fetch-begin and no progress tick. Its trace stays within the defined behaviour of
  the stream.
\<close>

theorem not_modified:
  assumes "fdopen_ok T" and "fetch_priv repo \<noteq> None"
    and "mirror_type repo = SRV \<longrightarrow> srv repo \<noteq> None"
    and "t_msgs T = [CURLMSG_DONE 304]"
  shows "r_code (curl_fetch E repo fi T) = Inr EPKG_UPTODATE
       \<and> fi_mtime (r_item (curl_fetch E repo fi T)) = t_filetime T
       \<and> stream_ok (r_trace (curl_fetch E repo fi T))
       \<and> ((\<forall>p \<in> set (t_performs T). Header_cb 200 \<notin> set (ps_callbacks p))
            \<longrightarrow> (\<forall>e \<in> set (r_trace (curl_fetch E repo fi T)). \<not> is_begin e \<and> \<not> is_tick e))"
proof -
  from first_pass [OF assms(1,2,3), of E fi] obtain st where
    run: "curl_fetch E repo fi T =
               (case msg_loop E repo fi (t_msgs T) st of
                  Inl x \<Rightarrow> crashed repo fi x
                | Inr st2 \<Rightarrow>
                    \<lparr>r_code = Inr (retcode st2), r_item = fi\<lparr>fi_mtime := t_filetime T\<rparr>,
                     r_repo = repo\<lparr>fetch_priv := cr st2\<rparr>, r_trace = trace st2\<rparr>)"
    and st: "stream_scan False (trace st) = Some True"
    by blast
  from run assms(4) have res: "curl_fetch E repo fi T =
      \<lparr>r_code = Inr EPKG_UPTODATE, r_item = fi\<lparr>fi_mtime := t_filetime T\<rparr>,
       r_repo = repo\<lparr>fetch_priv := cr st\<rparr>, r_trace = trace st @ [Fclose]\<rparr>"
    by simp
  have quiet: "\<forall>e \<in> set (r_trace (curl_fetch E repo fi T)). \<not> is_begin e \<and> \<not> is_tick e"
    if h: "\<forall>p \<in> set (t_performs T). Header_cb 200 \<notin> set (ps_callbacks p)"
  proof -
    have "\<exists>d. quiet_inv d (r_trace (curl_fetch E repo fi T))"
    proof (rule curl_fetch_inv [where C = "{c. c \<noteq> Header_cb 200}" and P = quiet_inv])
      show "quiet_inv (data (fetch_init E repo fi T)) [Fdopen]"
        by (simp add: quiet_inv_def fetch_init_def)
      show "\<And>st c. c \<in> {c. c \<noteq> Header_cb 200} \<Longrightarrow> quiet_inv (data st) (trace st)
              \<Longrightarrow> quiet_inv (data (run_callback c st)) (trace (run_callback c st))"
        by (simp add: quiet_inv_callback)
      show "\<And>d tr e. pass_effect repo fi e \<Longrightarrow> quiet_inv d tr \<Longrightarrow> quiet_inv d (tr @ [e])"
        by (rule quiet_inv_effect)
      show "\<And>d tr. quiet_inv d tr \<Longrightarrow> quiet_inv (d\<lparr>d_fh := False\<rparr>) tr"
        by (simp add: quiet_inv_def)
      show "\<forall>p \<in> set (t_performs T). set (ps_callbacks p) \<subseteq> {c. c \<noteq> Header_cb 200}"
        using h by auto
    qed (rule assms(1))
    then show ?thesis by (auto simp: quiet_inv_def)
  qed
  have "stream_ok (r_trace (curl_fetch E repo fi T))"
    using res st by (simp add: stream_ok_def stream_scan_append)
  with quiet res show ?thesis by simp
qed

text \<open>
  A 304 for an item with the modification time 1000, from a transport that reports
  the file time \<open>-1\<close>.
\<close>

theorem not_modified_witness:
  "r_code (curl_fetch (collab 3) direct_repo (item0\<lparr>fi_mtime := 1000\<rparr>)
      (stub [answer 304] [CURLMSG_DONE 304] (- 1))) = Inr EPKG_UPTODATE
   \<and> fi_mtime (r_item (curl_fetch (collab 3) direct_repo (item0\<lparr>fi_mtime := 1000\<rparr>)
      (stub [answer 304] [CURLMSG_DONE 304] (- 1)))) = - 1
   \<and> filter is_begin (r_trace (curl_fetch (collab 3) direct_repo (item0\<lparr>fi_mtime := 1000\<rparr>)
      (stub [answer 304] [CURLMSG_DONE 304] (- 1)))) = []
   \<and> filter is_tick (r_trace (curl_fetch (collab 3) direct_repo (item0\<lparr>fi_mtime := 1000\<rparr>)
      (stub [answer 304] [CURLMSG_DONE 304] (- 1)))) = []
   \<and> stream_ok (r_trace (curl_fetch (collab 3) direct_repo (item0\<lparr>fi_mtime := 1000\<rparr>)
      (stub [answer 304] [CURLMSG_DONE 304] (- 1))))"
proof -
  let ?T = "stub [answer 304] [CURLMSG_DONE 304] (- 1)"
  have h: "fdopen_ok ?T" "fetch_priv direct_repo \<noteq> None"
    "mirror_type direct_repo = SRV \<longrightarrow> srv direct_repo \<noteq> None"
    "t_msgs ?T = [CURLMSG_DONE 304]"
    and q: "\<forall>p \<in> set (t_performs ?T). Header_cb 200 \<notin> set (ps_callbacks p)"
    by (simp_all add: stub_def answer_def direct_repo_def)
  note nm = not_modified [OF h, of "collab 3" "item0\<lparr>fi_mtime := 1000\<rparr>"]
  from nm q have
    "filter is_begin (r_trace (curl_fetch (collab 3) direct_repo (item0\<lparr>fi_mtime := 1000\<rparr>) ?T))
       = []"
    "filter is_tick (r_trace (curl_fetch (collab 3) direct_repo (item0\<lparr>fi_mtime := 1000\<rparr>) ?T))
       = []"
    by (simp_all add: filter_empty_conv)
  moreover have "t_filetime ?T = - 1" by (simp add: stub_def)
  ultimately show ?thesis using nm by simp
qed

text \<open>
  Claim C4 as stated fails: a 304 on the first attempt returns \<open>EPKG_UPTODATE\<close>, and the
  modification time 1000 of the item is not left unchanged. The other three facts are
  why the amended claim has its conditions: after a header callback that read 200, a
  304 at completion comes with a fetch-begin and a progress tick; a 304 after an
  earlier failure closes the closed stream; and on a session that is not open the call
  dereferences NULL before it has any response.
\<close>

theorem not_modified_counterexample:
  "r_code (curl_fetch (collab 3) direct_repo (item0\<lparr>fi_mtime := 1000\<rparr>)
      (stub [answer 304] [CURLMSG_DONE 304] (- 1))) = Inr EPKG_UPTODATE
   \<and> fi_mtime (r_item (curl_fetch (collab 3) direct_repo (item0\<lparr>fi_mtime := 1000\<rparr>)
      (stub [answer 304] [CURLMSG_DONE 304] (- 1))))
       \<noteq> fi_mtime (item0\<lparr>fi_mtime := 1000\<rparr>)
   \<and> filter is_begin (r_trace (curl_fetch (collab 3) direct_repo item0
        (stub [answer 200] [CURLMSG_DONE 304] (- 1)))) = [Fetch_begin ''http://mirror/pkg.txz'']
   \<and> filter is_tick (r_trace (curl_fetch (collab 3) direct_repo item0
        (stub [answer 200] [CURLMSG_DONE 304] (- 1)))) = [Progress_tick 40 100]
   \<and> \<not> stream_ok (r_trace (curl_fetch (collab 3) direct_repo item0
        (stub [answer 304] [CURLMSG_DONE 500, CURLMSG_DONE 304] (- 1))))
   \<and> r_code (curl_fetch (collab 3) (direct_repo\<lparr>fetch_priv := None\<rparr>) item0
        (stub [answer 304] [CURLMSG_DONE 304] (- 1))) = Inl Null_deref"
  by (simp add: run_simps example_simps stream_ok_def)

subsection \<open>A destination that cannot be opened\<close>

text \<open>
  Claim C10. When \<^verbatim>\<open>fdopen(dup(dest), "w")\<close> returns NULL, the call returns
  \<open>EPKG_FATAL\<close> at once: the trace is empty (nothing is configured, nothing is driven,
  no event is emitted), and the item and the repository are as they were.
\<close>

theorem fdopen_failure:
  assumes "\<not> fdopen_ok T"
  shows "r_code (curl_fetch E repo fi T) = Inr EPKG_FATAL
       \<and> r_trace (curl_fetch E repo fi T) = []
       \<and> r_item (curl_fetch E repo fi T) = fi
       \<and> r_repo (curl_fetch E repo fi T) = repo"
  using assms by (simp add: curl_fetch_def)

theorem fdopen_failure_witness:
  "r_code (curl_fetch (collab 3) direct_repo item0
      ((stub [answer 200] [CURLMSG_DONE 200] 77)\<lparr>fdopen_ok := False\<rparr>)) = Inr EPKG_FATAL
   \<and> r_trace (curl_fetch (collab 3) direct_repo item0
      ((stub [answer 200] [CURLMSG_DONE 200] 77)\<lparr>fdopen_ok := False\<rparr>)) = []
   \<and> fi_mtime (r_item (curl_fetch (collab 3) direct_repo item0
      ((stub [answer 200] [CURLMSG_DONE 200] 77)\<lparr>fdopen_ok := False\<rparr>))) = 0"
proof -
  have "\<not> fdopen_ok ((stub [answer 200] [CURLMSG_DONE 200] 77)\<lparr>fdopen_ok := False\<rparr>)"
    by simp
  from fdopen_failure [OF this, of "collab 3" direct_repo item0] show ?thesis
    by (simp add: item0_def)
qed

subsection \<open>A resolver that finds no record\<close>

lemma direct_inv_callback:
  assumes "direct_inv fi (data st) (trace st)"
  shows "direct_inv fi (data (run_callback c st)) (trace (run_callback c st))"
  using assms
  by (cases c)
     (auto simp: direct_inv_def curl_parseheader_cb_def curl_progress_cb_def curl_write_cb_def
        Let_def)

lemma direct_inv_effect:
  "mirror_type repo = NOMIRROR \<Longrightarrow> pass_effect repo fi e \<Longrightarrow> direct_inv fi d tr
   \<Longrightarrow> direct_inv fi d (tr @ [e])"
  by (cases e) (auto simp: direct_inv_def pass_effect_def)

lemma curl_fetch_mirror_type [simp]:
  "mirror_type (r_repo (curl_fetch E repo fi T)) = mirror_type repo"
  by (simp add: curl_fetch_def crashed_def split: sum.splits)

lemma curl_fetch_nomirror:
  assumes "mirror_type repo = NOMIRROR"
  shows "\<forall>e \<in> set (r_trace (curl_fetch E repo fi T)).
           \<not> is_lookup e \<and> (is_target e \<longrightarrow> e = Setopt_url (fi_url fi))"
proof (cases "fdopen_ok T")
  case False
  then show ?thesis by (simp add: curl_fetch_def)
next
  case True
  have "\<exists>d. direct_inv fi d (r_trace (curl_fetch E repo fi T))"
  proof (rule curl_fetch_inv [where C = UNIV and P = "direct_inv fi"])
    show "direct_inv fi (data (fetch_init E repo fi T)) [Fdopen]"
      by (simp add: direct_inv_def)
    show "\<And>st c. direct_inv fi (data st) (trace st)
            \<Longrightarrow> direct_inv fi (data (run_callback c st)) (trace (run_callback c st))"
      by (rule direct_inv_callback)
    show "\<And>d tr e. pass_effect repo fi e \<Longrightarrow> direct_inv fi d tr \<Longrightarrow> direct_inv fi d (tr @ [e])"
      using assms by (rule direct_inv_effect)
    show "\<And>d tr. direct_inv fi d tr \<Longrightarrow> direct_inv fi (d\<lparr>d_fh := False\<rparr>) tr"
      by (simp add: direct_inv_def)
  qed (use True in simp_all)
  then show ?thesis by (simp add: direct_inv_def)
qed

text \<open>An effect in the trace stays there.\<close>

lemma attempt_keeps:
  assumes "x \<in> set (trace st)"
  shows "x \<in> set (trace (res_state (attempt E repo fi st)))"
proof (rule attempt_inv(1) [where C = UNIV and P = "\<lambda>d tr. x \<in> set tr"])
  show "\<And>st c. x \<in> set (trace st) \<Longrightarrow> x \<in> set (trace (run_callback c st))"
    subgoal for st c
      by (cases c)
         (auto simp: curl_parseheader_cb_def curl_progress_cb_def curl_write_cb_def Let_def)
    done
qed (use assms in \<open>simp_all add: scripted_def\<close>)

lemma msg_loop_keeps:
  assumes "x \<in> set (trace st)"
  shows "x \<in> set (trace (res_state (msg_loop E repo fi ms st)))"
proof (rule msg_loop_inv [where C = UNIV and P = "\<lambda>d tr. x \<in> set tr"])
  show "\<And>st c. x \<in> set (trace st) \<Longrightarrow> x \<in> set (trace (run_callback c st))"
    subgoal for st c
      by (cases c)
         (auto simp: curl_parseheader_cb_def curl_progress_cb_def curl_write_cb_def Let_def)
    done
qed (use assms in \<open>simp_all add: scripted_def\<close>)

lemma multi_loop_keeps: "x \<in> set (trace st) \<Longrightarrow> x \<in> set (trace (multi_loop ps st))"
proof (rule multi_loop_inv [where C = UNIV and P = "\<lambda>d tr. x \<in> set tr"])
  show "\<And>st c. x \<in> set (trace st) \<Longrightarrow> x \<in> set (trace (run_callback c st))"
    subgoal for st c
      by (cases c)
         (auto simp: curl_parseheader_cb_def curl_progress_cb_def curl_write_cb_def Let_def)
    done
qed simp_all

lemma curl_fetch_sets_url:
  assumes "mirror_type repo = NOMIRROR" and "fdopen_ok T"
  shows "Setopt_url (fi_url fi) \<in> set (r_trace (curl_fetch E repo fi T))"
proof -
  let ?i = "fetch_init E repo fi T"
  let ?x = "Setopt_url (fi_url fi)"
  have sp: "set_path E repo fi ?i = Inr ?i" using assms(1) by (simp add: set_path_def)
  have a: "?x \<in> set (trace (res_state (attempt E repo fi ?i)))"
    using assms(1)
    by (auto simp: attempt_def select_target_def add_handle_def res_state_def Let_def
          intro!: multi_loop_keeps split: option.splits)
  show ?thesis
  proof (cases "attempt E repo fi ?i")
    case (Inl y)
    with a sp assms(2) show ?thesis by (simp add: curl_fetch_def crashed_def res_state_def)
  next
    case (Inr st1)
    with a have "?x \<in> set (trace st1)" by (simp add: res_state_def)
    from msg_loop_keeps [OF this, of E repo fi "t_msgs T"] Inr sp assms(2) show ?thesis
      by (auto simp: curl_fetch_def crashed_def res_state_def split: sum.splits)
  qed
qed

lemma curl_open_nomirror:
  assumes "mirror_type repo = NOMIRROR"
  shows "mirror_type (fst (snd (curl_open E repo))) = NOMIRROR"
    and "snd (snd (curl_open E repo)) = []"
  using assms by (simp_all add: curl_open_def Let_def)

lemma curl_cleanup_mirror_type [simp]: "mirror_type (curl_cleanup repo) = mirror_type repo"
  by (simp add: curl_cleanup_def)

lemma run_call_nomirror:
  assumes "mirror_type (s_repo s) = NOMIRROR"
  shows "mirror_type (s_repo (run_call c s)) = NOMIRROR"
    and "filter is_lookup (s_trace (run_call c s)) = filter is_lookup (s_trace s)"
proof -
  show "mirror_type (s_repo (run_call c s)) = NOMIRROR"
    using assms by (cases c) (simp_all add: curl_open_nomirror)
  show "filter is_lookup (s_trace (run_call c s)) = filter is_lookup (s_trace s)"
  proof (cases c)
    case (Fetch E fi T)
    from curl_fetch_nomirror [OF assms, of E fi T]
    have "filter is_lookup (r_trace (curl_fetch E (s_repo s) fi T)) = []"
      by (simp add: filter_empty_conv)
    with Fetch show ?thesis by simp
  qed (use assms in \<open>simp_all add: curl_open_nomirror\<close>)
qed

lemma run_calls_nomirror:
  "mirror_type (s_repo s) = NOMIRROR
   \<Longrightarrow> mirror_type (s_repo (run_calls cs s)) = NOMIRROR
       \<and> filter is_lookup (s_trace (run_calls cs s)) = filter is_lookup (s_trace s)"
proof (induction cs arbitrary: s)
  case Nil
  then show ?case by simp
next
  case (Cons c cs)
  from run_call_nomirror [OF Cons.prems, of c] Cons.IH [of "run_call c s"]
  show ?case using Cons.prems by simp
qed

text \<open>
  Claim C7. A repository that uses SRV records, has none resolved and is not open, with
  a URL the parser accepts and a resolver that finds no record: \<^verbatim>\<open>curl_open\<close> returns
  \<open>EPKG_OK\<close> and leaves the strategy \<open>NOMIRROR\<close>. Whatever calls follow on the session,
  with whatever collaborators, the strategy is still \<open>NOMIRROR\<close>, the only resolver
  query in the whole trace is the one of that first \<^verbatim>\<open>curl_open\<close>, and any fetch on
  the session then queries nothing, names no target but the URL of its item, and does
  name it when its destination can be opened.
\<close>

theorem srv_downgrade_permanent:
  assumes "mirror_type repo = SRV" and "srv repo = None" and "fetch_priv repo = None"
    and "url_parse E (drop (urloff (repo_url repo)) (repo_url repo)) = Some u"
    and "dns_getsrvinfo E (''_http._tcp.'' @ cu_host u) = None"
  shows "fst (curl_open E repo) = EPKG_OK
       \<and> mirror_type (fst (snd (curl_open E repo))) = NOMIRROR
       \<and> (\<forall>calls.
            mirror_type (s_repo (run_calls (Open E # calls)
                \<lparr>s_repo = repo, s_trace = [], s_alive = True\<rparr>)) = NOMIRROR
          \<and> filter is_lookup (s_trace (run_calls (Open E # calls)
                \<lparr>s_repo = repo, s_trace = [], s_alive = True\<rparr>))
              = [Srv_lookup (''_http._tcp.'' @ cu_host u)]
          \<and> (\<forall>E' fi T. \<forall>e \<in> set (r_trace (curl_fetch E'
                 (s_repo (run_calls (Open E # calls)
                    \<lparr>s_repo = repo, s_trace = [], s_alive = True\<rparr>)) fi T)).
                 \<not> is_lookup e \<and> (is_target e \<longrightarrow> e = Setopt_url (fi_url fi)))
          \<and> (\<forall>E' fi T. fdopen_ok T \<longrightarrow> Setopt_url (fi_url fi) \<in> set (r_trace (curl_fetch E'
                 (s_repo (run_calls (Open E # calls)
                    \<lparr>s_repo = repo, s_trace = [], s_alive = True\<rparr>)) fi T))))"
proof -
  let ?s0 = "\<lparr>s_repo = repo, s_trace = [], s_alive = True\<rparr>"
  have op: "fst (curl_open E repo) = EPKG_OK"
    "mirror_type (fst (snd (curl_open E repo))) = NOMIRROR"
    "snd (snd (curl_open E repo)) =
       [Srv_lookup (''_http._tcp.'' @ cu_host u),
        Emit_error (''No SRV record found for the repo '' @ [CHR 0x27] @ repo_name repo
                    @ [CHR 0x27, CHR 0x0A])]"
    using assms by (simp_all add: curl_open_def Let_def)
  have s1: "mirror_type (s_repo (run_call (Open E) ?s0)) = NOMIRROR"
    "filter is_lookup (s_trace (run_call (Open E) ?s0)) = [Srv_lookup (''_http._tcp.'' @ cu_host u)]"
    using op by simp_all
  have all: "mirror_type (s_repo (run_calls (Open E # calls) ?s0)) = NOMIRROR
       \<and> filter is_lookup (s_trace (run_calls (Open E # calls) ?s0))
           = [Srv_lookup (''_http._tcp.'' @ cu_host u)]" for calls
    using run_calls_nomirror [OF s1(1), of calls] s1(2) by simp
  show ?thesis
    using op(1,2) all curl_fetch_nomirror curl_fetch_sets_url by blast
qed

text \<open>
  A session on the example repository: open, fetch, clean up, open again and fetch
  again, the later calls with a resolver that would find records.
\<close>

theorem srv_downgrade_permanent_witness:
  "mirror_type (s_repo (run_calls
      [Open (collab 3), Fetch (collab_srv 3) item0 (stub [answer 200] [CURLMSG_DONE 200] 77),
       Cleanup, Open (collab_srv 3)]
      \<lparr>s_repo = srv_repo, s_trace = [], s_alive = True\<rparr>)) = NOMIRROR
   \<and> filter is_lookup (s_trace (run_calls
      [Open (collab 3), Fetch (collab_srv 3) item0 (stub [answer 200] [CURLMSG_DONE 200] 77),
       Cleanup, Open (collab_srv 3)]
      \<lparr>s_repo = srv_repo, s_trace = [], s_alive = True\<rparr>)) = [Srv_lookup ''_http._tcp.mirror'']
   \<and> Setopt_url ''http://mirror/pkg.txz'' \<in> set (r_trace (curl_fetch (collab_srv 3)
        (s_repo (run_calls
          [Open (collab 3), Fetch (collab_srv 3) item0 (stub [answer 200] [CURLMSG_DONE 200] 77),
           Cleanup, Open (collab_srv 3)]
          \<lparr>s_repo = srv_repo, s_trace = [], s_alive = True\<rparr>))
        item0 (stub [answer 304] [CURLMSG_DONE 304] 77)))"
proof -
  let ?u = "\<lparr>cu_host = ''mirror'', cu_port = [], cu_path = ''/pkg.txz''\<rparr>"
  let ?calls = "[Fetch (collab_srv 3) item0 (stub [answer 200] [CURLMSG_DONE 200] 77),
                 Cleanup, Open (collab_srv 3)]"
  have h: "mirror_type srv_repo = SRV" "srv srv_repo = None" "fetch_priv srv_repo = None"
    "url_parse (collab 3) (drop (urloff (repo_url srv_repo)) (repo_url srv_repo)) = Some ?u"
    "dns_getsrvinfo (collab 3) (''_http._tcp.'' @ cu_host ?u) = None"
    by (simp_all add: srv_repo_def collab_def example_parse_def urloff_def lower_char_def)
  have o: "fdopen_ok (stub [answer 304] [CURLMSG_DONE 304] 77)" by (simp add: stub_def)
  note t = srv_downgrade_permanent [OF h, THEN conjunct2, THEN conjunct2, THEN spec, of ?calls]
  from t have "mirror_type (s_repo (run_calls (Open (collab 3) # ?calls)
      \<lparr>s_repo = srv_repo, s_trace = [], s_alive = True\<rparr>)) = NOMIRROR"
    and "filter is_lookup (s_trace (run_calls (Open (collab 3) # ?calls)
      \<lparr>s_repo = srv_repo, s_trace = [], s_alive = True\<rparr>))
        = [Srv_lookup (''_http._tcp.'' @ cu_host ?u)]"
    by blast+
  moreover from t o have "Setopt_url (fi_url item0) \<in> set (r_trace (curl_fetch (collab_srv 3)
        (s_repo (run_calls (Open (collab 3) # ?calls)
          \<lparr>s_repo = srv_repo, s_trace = [], s_alive = True\<rparr>))
        item0 (stub [answer 304] [CURLMSG_DONE 304] 77)))"
    by blast
  ultimately show ?thesis by (simp add: item0_def)
qed

subsection \<open>What happens after the result is fatal\<close>

text \<open>
  Claim C1, on the code. Line 239 jumps to \<^verbatim>\<open>retry\<close> whether or not line 237 has
  set \<open>EPKG_FATAL\<close>. With a ceiling of 3 and a 404 as the only completion message, the
  call reports the error and then configures the request and adds the handle a second
  time before it returns; when the second pass finds a 304 message, the call returns
  \<open>EPKG_UPTODATE\<close>.
\<close>

theorem not_found_is_retried:
  "r_trace (curl_fetch (collab 3) direct_repo item0 (stub [answer 404] [CURLMSG_DONE 404] 77))
     = [Fdopen, Setopt_url ''http://mirror/pkg.txz'', Setopt_timevalue 0, Multi_add_handle,
        Multi_perform, Header_response 404, Header_response 404, Fwrite 40, Fclose,
        Emit_error ''An error occured while fetching package'',
        Setopt_url ''http://mirror/pkg.txz'', Setopt_timevalue 0, Multi_add_handle]
   \<and> r_code (curl_fetch (collab 3) direct_repo item0
        (stub [answer 404] [CURLMSG_DONE 404] 77)) = Inr EPKG_FATAL
   \<and> r_code (curl_fetch (collab 3) direct_repo item0
        (stub [answer 404] [CURLMSG_DONE 404, CURLMSG_DONE 304] 77)) = Inr EPKG_UPTODATE"
  by (simp add: run_simps example_simps)


subsection \<open>The destination stream across passes\<close>

lemma fdopen_inv_callback:
  "length (filter is_fdopen (trace (run_callback c st))) = length (filter is_fdopen (trace st))"
  by (cases c)
     (simp_all add: curl_parseheader_cb_def curl_progress_cb_def curl_write_cb_def Let_def)

lemma fdopen_inv_effect: "pass_effect repo fi e \<Longrightarrow> \<not> is_fdopen e"
  by (cases e) (simp_all add: pass_effect_def)

text \<open>
  Claim C8, on the code. \<^verbatim>\<open>fdopen(dup(dest), "w")\<close> stands before the label
  \<^verbatim>\<open>retry\<close>, so no call opens the stream more than once, and line 225 closes it at
  every completion message. With a 500 and then a 200, the second pass starts on the
  closed stream and closes it again; when the first pass ends on an error of
  \<^verbatim>\<open>curl_multi_poll\<close> with the transfer still running, the second pass drives the
  transfer and the body of the 200 is written to the closed stream.
\<close>

theorem sink_not_reopened:
  "length (filter is_fdopen (r_trace (curl_fetch E repo fi T))) \<le> 1
   \<and> r_trace (curl_fetch (collab 3) direct_repo item0
        (stub [answer 500] [CURLMSG_DONE 500, CURLMSG_DONE 200] 77))
     = [Fdopen, Setopt_url ''http://mirror/pkg.txz'', Setopt_timevalue 0, Multi_add_handle,
        Multi_perform, Header_response 500, Header_response 500, Fwrite 40, Fclose,
        Setopt_url ''http://mirror/pkg.txz'', Setopt_timevalue 0, Multi_add_handle, Fclose]
   \<and> r_trace (curl_fetch (collab 3) direct_repo item0
        (stub [\<lparr>ps_callbacks = [Header_cb 500, Write_cb 3], ps_running = 1, ps_mc = 0,
                ps_poll_mc = 1\<rparr>,
               \<lparr>ps_callbacks = [Header_cb 200, Write_cb 10], ps_running = 0, ps_mc = 0,
                ps_poll_mc = 0\<rparr>]
           [CURLMSG_DONE 500, CURLMSG_DONE 200] 77))
     = [Fdopen, Setopt_url ''http://mirror/pkg.txz'', Setopt_timevalue 0, Multi_add_handle,
        Multi_perform, Header_response 500, Fwrite 3, Fclose,
        Setopt_url ''http://mirror/pkg.txz'', Setopt_timevalue 0, Multi_add_handle,
        Multi_perform, Header_response 200, Fetch_begin ''http://mirror/pkg.txz'',
        Progress_start, Fwrite 10, Fclose]"
proof (intro conjI)
  show "length (filter is_fdopen (r_trace (curl_fetch E repo fi T))) \<le> 1"
  proof (cases "fdopen_ok T")
    case False
    then show ?thesis by (simp add: curl_fetch_def)
  next
    case True
    have "\<exists>d::curl_userdata. length (filter is_fdopen (r_trace (curl_fetch E repo fi T))) = 1"
    proof (rule curl_fetch_inv [where C = UNIV and P = "\<lambda>d tr. length (filter is_fdopen tr) = 1"])
      show "\<And>st c. length (filter is_fdopen (trace st)) = 1
              \<Longrightarrow> length (filter is_fdopen (trace (run_callback c st))) = 1"
        by (simp add: fdopen_inv_callback)
      show "\<And>d tr e. pass_effect repo fi e \<Longrightarrow> length (filter is_fdopen tr) = 1
              \<Longrightarrow> length (filter is_fdopen (tr @ [e])) = 1"
        by (simp add: fdopen_inv_effect)
    qed (use True in simp_all)
    then show ?thesis by simp
  qed
qed (simp_all add: run_simps example_simps)

subsection \<open>The end of the SRV list\<close>

text \<open>
  Claim C6, on the code. The cursor moves to \<^verbatim>\<open>srv_current->next\<close> and line 181
  reads the node at once; the test for NULL at line 177 comes before the move, not
  after it. On the example repository, opened with a resolver that returns three
  records in a list that ends with NULL, three failed attempts select the hosts m1, m2
  and m3 in order, and the fourth pass dereferences NULL.
\<close>

theorem srv_list_end_dereferenced:
  "r_code (curl_fetch (collab_srv 10) (fst (snd (curl_open (collab_srv 10) srv_repo))) item0
      (stub [answer 500] [CURLMSG_DONE 500, CURLMSG_DONE 500, CURLMSG_DONE 500] 77))
     = Inl Null_deref
   \<and> filter is_target (r_trace (curl_fetch (collab_srv 10)
        (fst (snd (curl_open (collab_srv 10) srv_repo))) item0
        (stub [answer 500] [CURLMSG_DONE 500, CURLMSG_DONE 500, CURLMSG_DONE 500] 77)))
     = [Setopt_curlu (Some \<lparr>cu_host = ''m1'', cu_port = ''80'', cu_path = ''/pkg.txz''\<rparr>),
        Setopt_curlu (Some \<lparr>cu_host = ''m2'', cu_port = ''80'', cu_path = ''/pkg.txz''\<rparr>),
        Setopt_curlu (Some \<lparr>cu_host = ''m3'', cu_port = ''8080'', cu_path = ''/pkg.txz''\<rparr>)]"
  by (simp add: run_simps example_simps)

end
